theory Spec2Isabelle
  imports Main
begin

section \<open>The example notebook of the Qiskit Quantinuum provider\<close>

text \<open>
  The repository's source is one Jupyter notebook, \<^verbatim>\<open>examples/QuantinuumExample.ipynb\<close>.
  Its code cells are straight-line Python: every statement is an import, an assignment, a
  call into a library (qiskit, qiskit\_quantinuum, json, the builtins \<^verbatim>\<open>open\<close> and
  \<^verbatim>\<open>print\<close>) or an attribute read on an object a library returned.

  The cells are embedded as state-passing functions. The state is the world the kernel
  runs in; a raised exception is the left summand of the result, and the world survives
  it, as the kernel's namespace and the file system survive a failed cell.
\<close>

subsection \<open>Values, calls and the world\<close>

text \<open>\<^verbatim>\<open>os.environ\<close>: where \<^verbatim>\<open>QUANTINUUM_API_KEY\<close> may be set.\<close>

type_synonym environ = "string \<rightharpoonup> string"

text \<open>
  The Python values the notebook handles: its own literals (strings and integers), the
  truth value of \<^verbatim>\<open>result.success\<close>, the dictionary \<^verbatim>\<open>get_counts\<close> returns, and
  objects of the libraries, which the notebook only passes on (\<open>'o\<close> is whatever the
  libraries make of them).
\<close>

datatype 'o val =
    PyNone
  | PyStr string
  | PyInt int
  | PyBool bool
  | PyDict "(string \<times> int) list"
  | PyObj 'o

text \<open>
  What the notebook asks of code that is not its own, written as the source writes it: an
  import, a call of an imported name with positional and keyword arguments, a method call
  on a value, an attribute read, the builtin \<^verbatim>\<open>open(name, mode)\<close>, and
  \<^verbatim>\<open>json.dump(obj, f)\<close>.
\<close>

datatype 'o call =
    Import string
  | Call string "'o val list" "(string \<times> 'o val) list"
  | Method "'o val" string "'o val list"
  | Attr "'o val" string
  | Open string string
  | JsonDump "'o val"

text \<open>
  The libraries, as a parameter of every cell. \<open>respond\<close> answers a call in the process
  environment and the libraries' own state \<open>'s\<close> (accounts, the remote service, circuit
  objects): it returns a value or raises \<open>'x\<close>, and leaves a new state. \<open>json_dump\<close> is the
  text \<^verbatim>\<open>json.dump\<close> writes for a value, with the exception it ends in, if any (the encoder
  writes chunk by chunk, so text may have been written when it raises). \<open>render\<close> is the
  text an f-string puts for a value that is not a string.
\<close>

record ('o, 'x, 's) libs =
  respond :: "environ \<Rightarrow> 'o call \<Rightarrow> 's \<Rightarrow> ('x + 'o val) \<times> 's"
  json_dump :: "'o val \<Rightarrow> string \<times> 'x option"
  render :: "'o val \<Rightarrow> string"

text \<open>
  The world: the libraries' state, the files (name to content), what the notebook has
  displayed (each \<^verbatim>\<open>print\<close> and each cell value, as the list of values shown), and the
  trace of calls made so far, each with the way it ended.
\<close>

record ('o, 'x, 's) world =
  ext :: 's
  files :: "string \<rightharpoonup> string"
  shown :: "'o val list list"
  trace :: "('o call \<times> ('x + 'o val)) list"

type_synonym ('o, 'x, 's, 'a) nb = "('o, 'x, 's) world \<Rightarrow> ('x + 'a) \<times> ('o, 'x, 's) world"

subsection \<open>Statements\<close>

definition nb_return :: "'a \<Rightarrow> ('o, 'x, 's, 'a) nb" where
  "nb_return a w = (Inr a, w)"

text \<open>One statement after another: an exception ends the run where it was raised.\<close>

definition nb_bind :: "('o, 'x, 's, 'a) nb \<Rightarrow> ('a \<Rightarrow> ('o, 'x, 's, 'b) nb) \<Rightarrow> ('o, 'x, 's, 'b) nb" where
  "nb_bind m f w = (case m w of (Inl e, w') \<Rightarrow> (Inl e, w') | (Inr a, w') \<Rightarrow> f a w')"

text \<open>
  A call into a library. The libraries are not among the sources, so what a call does is
  the parameter \<open>respond\<close>: it acts on the libraries' own state and returns or raises.
  That state stands for all the libraries own, in memory, on disk or at the remote
  service (the account \<^verbatim>\<open>save_account\<close> stores is there); \<open>files\<close> are the files as the
  notebook's own statements write them. The notebook passes nothing but the arguments it
  writes; the process environment is what a library may read on its own.
\<close>

definition invoke :: "('o, 'x, 's) libs \<Rightarrow> environ \<Rightarrow> 'o call \<Rightarrow> ('o, 'x, 's, 'o val) nb" where
  "invoke L env c w =
     (case respond L env c (ext w) of
        (r, s') \<Rightarrow> (r, w\<lparr>ext := s', trace := trace w @ [(c, r)]\<rparr>))"

text \<open>\<^verbatim>\<open>print(a, b, ...)\<close>: a display.\<close>

definition print :: "'o val list \<Rightarrow> ('o, 'x, 's, unit) nb" where
  "print vs w = (Inr (), w\<lparr>shown := shown w @ [vs]\<rparr>)"

text \<open>The value of a cell's last expression is displayed unless it is \<^verbatim>\<open>None\<close>.\<close>

definition display :: "'o val \<Rightarrow> ('o, 'x, 's, unit) nb" where
  "display v w = (Inr (), if v = PyNone then w else w\<lparr>shown := shown w @ [[v]]\<rparr>)"

text \<open>A replacement field of an f-string: a string stands for itself.\<close>

definition format_field :: "('o, 'x, 's) libs \<Rightarrow> 'o val \<Rightarrow> string" where
  "format_field L v = (case v of PyStr s \<Rightarrow> s | _ \<Rightarrow> render L v)"

text \<open>
  \<^verbatim>\<open>open(name, 'w')\<close>: when the call returns, the file exists and is empty, whatever it
  held before.
\<close>

definition open_w :: "('o, 'x, 's) libs \<Rightarrow> environ \<Rightarrow> string \<Rightarrow> ('o, 'x, 's, 'o val) nb" where
  "open_w L env name w =
     (case invoke L env (Open name ''w'') w of
        (Inl e, w') \<Rightarrow> (Inl e, w')
      | (Inr f, w') \<Rightarrow> (Inr f, w'\<lparr>files := (files w')(name \<mapsto> [])\<rparr>))"

text \<open>
  \<^verbatim>\<open>json.dump(obj, f)\<close> on the file just opened: the text is written after what the file
  holds, and the exception of the encoder, if any, is raised after that.
\<close>

definition json_dump_to :: "('o, 'x, 's) libs \<Rightarrow> string \<Rightarrow> 'o val \<Rightarrow> ('o, 'x, 's, unit) nb" where
  "json_dump_to L name v w =
     (case json_dump L v of
        (text, err) \<Rightarrow>
          (let held = (case files w name of None \<Rightarrow> [] | Some old \<Rightarrow> old);
               r = (case err of None \<Rightarrow> Inr PyNone | Some e \<Rightarrow> Inl e);
               w' = w\<lparr>files := (files w)(name \<mapsto> held @ text),
                       trace := trace w @ [(JsonDump v, r)]\<rparr>
           in (case err of None \<Rightarrow> (Inr (), w') | Some e \<Rightarrow> (Inl e, w'))))"

subsection \<open>The code cells, in the order of the file\<close>

text \<open>
  \<^verbatim>\<open>
  import numpy as np
  from qiskit import QuantumCircuit, execute
  from qiskit_quantinuum import Quantinuum
  from qiskit.visualization import plot_histogram
  \<close>
\<close>

definition cell_imports :: "('o, 'x, 's) libs \<Rightarrow> environ \<Rightarrow> ('o, 'x, 's, unit) nb" where
  "cell_imports L env =
     nb_bind (invoke L env (Import ''numpy'')) (\<lambda>_.
     nb_bind (invoke L env (Import ''qiskit'')) (\<lambda>_.
     nb_bind (invoke L env (Import ''qiskit_quantinuum'')) (\<lambda>_.
     nb_bind (invoke L env (Import ''qiskit.visualization'')) (\<lambda>_.
     nb_return ()))))"

text \<open>
  \<^verbatim>\<open>
  Quantinuum.save_account(user_name="first.last@company.com")
  Quantinuum.load_account()
  \<close>
\<close>

definition cell_account :: "('o, 'x, 's) libs \<Rightarrow> environ \<Rightarrow> ('o, 'x, 's, unit) nb" where
  "cell_account L env =
     nb_bind (invoke L env (Call ''Quantinuum.save_account'' []
                [(''user_name'', PyStr ''first.last@company.com'')])) (\<lambda>_.
     nb_bind (invoke L env (Call ''Quantinuum.load_account'' [] [])) (\<lambda>v.
     display v))"

text \<open>\<^verbatim>\<open>Quantinuum.backends()\<close>\<close>

definition cell_backends :: "('o, 'x, 's) libs \<Rightarrow> environ \<Rightarrow> ('o, 'x, 's, unit) nb" where
  "cell_backends L env =
     nb_bind (invoke L env (Call ''Quantinuum.backends'' [] [])) (\<lambda>v.
     display v)"

text \<open>
  \<^verbatim>\<open>
  device = 'H1-2E'
  backend = Quantinuum.get_backend(device)
  status = backend.status()

  print(device, "status :", status.status_msg)
  \<close>
  The cell leaves \<^verbatim>\<open>backend\<close> for the cells below.
\<close>

definition cell_device :: "('o, 'x, 's) libs \<Rightarrow> environ \<Rightarrow> ('o, 'x, 's, 'o val) nb" where
  "cell_device L env =
     (let device = PyStr ''H1-2E'' in
      nb_bind (invoke L env (Call ''Quantinuum.get_backend'' [device] [])) (\<lambda>backend.
      nb_bind (invoke L env (Method backend ''status'' [])) (\<lambda>status.
      nb_bind (invoke L env (Attr status ''status_msg'')) (\<lambda>msg.
      nb_bind (print [device, PyStr ''status :'', msg]) (\<lambda>_.
      nb_return backend)))))"

text \<open>
  \<^verbatim>\<open>
  n_qubits = 2
  circuit = QuantumCircuit(n_qubits, n_qubits, name='Bell Test')
  circuit.h(0)
  circuit.cx(0, 1)
  circuit.measure_all()

  circuit.draw()
  \<close>
  The cell leaves \<^verbatim>\<open>circuit\<close>.
\<close>

definition cell_circuit :: "('o, 'x, 's) libs \<Rightarrow> environ \<Rightarrow> ('o, 'x, 's, 'o val) nb" where
  "cell_circuit L env =
     (let n_qubits = PyInt 2 in
      nb_bind (invoke L env (Call ''QuantumCircuit'' [n_qubits, n_qubits]
                 [(''name'', PyStr ''Bell Test'')])) (\<lambda>circuit.
      nb_bind (invoke L env (Method circuit ''h'' [PyInt 0])) (\<lambda>_.
      nb_bind (invoke L env (Method circuit ''cx'' [PyInt 0, PyInt 1])) (\<lambda>_.
      nb_bind (invoke L env (Method circuit ''measure_all'' [])) (\<lambda>_.
      nb_bind (invoke L env (Method circuit ''draw'' [])) (\<lambda>drawing.
      nb_bind (display drawing) (\<lambda>_.
      nb_return circuit)))))))"

text \<open>
  \<^verbatim>\<open>
  shots = 100
  job = execute(circuit, backend, shots=shots)
  \<close>
\<close>

definition cell_submit :: "('o, 'x, 's) libs \<Rightarrow> environ \<Rightarrow> 'o val \<Rightarrow> 'o val \<Rightarrow> ('o, 'x, 's, 'o val) nb" where
  "cell_submit L env circuit backend =
     (let shots = PyInt 100 in
      invoke L env (Call ''execute'' [circuit, backend] [(''shots'', shots)]))"

text \<open>\<^verbatim>\<open>job.status()\<close>\<close>

definition cell_job_status :: "('o, 'x, 's) libs \<Rightarrow> environ \<Rightarrow> 'o val \<Rightarrow> ('o, 'x, 's, unit) nb" where
  "cell_job_status L env job =
     nb_bind (invoke L env (Method job ''status'' [])) (\<lambda>v.
     display v)"

text \<open>
  \<^verbatim>\<open>
  result = job.result()

  print("Job ID:", result.job_id)
  print("Job success:", result.success)
  \<close>
\<close>

definition cell_result :: "('o, 'x, 's) libs \<Rightarrow> environ \<Rightarrow> 'o val \<Rightarrow> ('o, 'x, 's, 'o val) nb" where
  "cell_result L env job =
     nb_bind (invoke L env (Method job ''result'' [])) (\<lambda>result.
     nb_bind (invoke L env (Attr result ''job_id'')) (\<lambda>jid.
     nb_bind (print [PyStr ''Job ID:'', jid]) (\<lambda>_.
     nb_bind (invoke L env (Attr result ''success'')) (\<lambda>ok.
     nb_bind (print [PyStr ''Job success:'', ok]) (\<lambda>_.
     nb_return result)))))"

text \<open>
  \<^verbatim>\<open>
  counts = result.get_counts()
  print("Total count for 00 and 11 are:",counts)

  # Result should not be '0', it should be '00'!
  \<close>
\<close>

definition cell_counts :: "('o, 'x, 's) libs \<Rightarrow> environ \<Rightarrow> 'o val \<Rightarrow> ('o, 'x, 's, 'o val) nb" where
  "cell_counts L env result =
     nb_bind (invoke L env (Method result ''get_counts'' [])) (\<lambda>counts.
     nb_bind (print [PyStr ''Total count for 00 and 11 are:'', counts]) (\<lambda>_.
     nb_return counts))"

text \<open>\<^verbatim>\<open>plot_histogram(counts)\<close>\<close>

definition cell_plot :: "('o, 'x, 's) libs \<Rightarrow> environ \<Rightarrow> 'o val \<Rightarrow> ('o, 'x, 's, unit) nb" where
  "cell_plot L env counts =
     nb_bind (invoke L env (Call ''plot_histogram'' [counts] [])) (\<lambda>v.
     display v)"

text \<open>
  \<^verbatim>\<open>
  import json

  with open(f'results_{result.job_id}.json', 'w') as f:
      json.dump(result.get_counts(), f)
  \<close>
  The file name is evaluated first, then the file is opened, then \<^verbatim>\<open>get_counts\<close> is
  called (again: the cell does not use \<^verbatim>\<open>counts\<close>), then its value is dumped.
\<close>

definition results_name :: "('o, 'x, 's) libs \<Rightarrow> 'o val \<Rightarrow> string" where
  "results_name L jid = ''results_'' @ format_field L jid @ ''.json''"

definition cell_save :: "('o, 'x, 's) libs \<Rightarrow> environ \<Rightarrow> 'o val \<Rightarrow> ('o, 'x, 's, unit) nb" where
  "cell_save L env result =
     nb_bind (invoke L env (Import ''json'')) (\<lambda>_.
     nb_bind (invoke L env (Attr result ''job_id'')) (\<lambda>jid.
     nb_bind (open_w L env (results_name L jid)) (\<lambda>f.
     nb_bind (invoke L env (Method result ''get_counts'' [])) (\<lambda>c.
     json_dump_to L (results_name L jid) c))))"

text \<open>
  \<^verbatim>\<open>
  device = 'H1-2E'
  job_id = 'insert job id'
  backend = Quantinuum.get_backend(device)
  job = backend.retrieve_job(job_id)
  result = job.result()
  counts = result.get_counts()
  print(counts)
  \<close>
\<close>

definition cell_past_job :: "('o, 'x, 's) libs \<Rightarrow> environ \<Rightarrow> ('o, 'x, 's, 'o val) nb" where
  "cell_past_job L env =
     (let device = PyStr ''H1-2E''; job_id = PyStr ''insert job id'' in
      nb_bind (invoke L env (Call ''Quantinuum.get_backend'' [device] [])) (\<lambda>backend.
      nb_bind (invoke L env (Method backend ''retrieve_job'' [job_id])) (\<lambda>job.
      nb_bind (invoke L env (Method job ''result'' [])) (\<lambda>result.
      nb_bind (invoke L env (Method result ''get_counts'' [])) (\<lambda>counts.
      nb_bind (print [counts]) (\<lambda>_.
      nb_return counts))))))"

text \<open>The notebook, run from the top: the cells in the order of the file.\<close>

definition notebook :: "('o, 'x, 's) libs \<Rightarrow> environ \<Rightarrow> ('o, 'x, 's, 'o val) nb" where
  "notebook L env =
     nb_bind (cell_imports L env) (\<lambda>_.
     nb_bind (cell_account L env) (\<lambda>_.
     nb_bind (cell_backends L env) (\<lambda>_.
     nb_bind (cell_device L env) (\<lambda>backend.
     nb_bind (cell_circuit L env) (\<lambda>circuit.
     nb_bind (cell_submit L env circuit backend) (\<lambda>job.
     nb_bind (cell_job_status L env job) (\<lambda>_.
     nb_bind (cell_result L env job) (\<lambda>result.
     nb_bind (cell_counts L env result) (\<lambda>counts.
     nb_bind (cell_plot L env counts) (\<lambda>_.
     nb_bind (cell_save L env result) (\<lambda>_.
     cell_past_job L env)))))))))))"

subsection \<open>The circuit object\<close>

text \<open>
  \<^verbatim>\<open>QuantumCircuit\<close> is qiskit's class and not among the sources. What follows is the part
  of it the circuit cell uses, as the drawing recorded under that cell shows its effect:
  two qubit wires, the register \<^verbatim>\<open>c\<close> of the constructor, and a second register
  \<^verbatim>\<open>meas\<close>, a barrier and one measurement per qubit, all three put there by
  \<^verbatim>\<open>measure_all()\<close>.
\<close>

datatype instr =
    H nat
  | CX nat nat
  | Barrier "nat list"
  | Measure nat string nat

record circuit =
  circ_name :: string
  num_qubits :: nat
  cregs :: "(string \<times> nat) list"
  instrs :: "instr list"

definition num_clbits :: "circuit \<Rightarrow> nat" where
  "num_clbits c = sum_list (map snd (cregs c))"

text \<open>\<^verbatim>\<open>QuantumCircuit(n, m, name=...)\<close>: \<open>n\<close> qubits and one classical register \<^verbatim>\<open>c\<close> of \<open>m\<close> bits.\<close>

definition QuantumCircuit :: "int \<Rightarrow> int \<Rightarrow> string \<Rightarrow> string + circuit" where
  "QuantumCircuit n m nm =
     (if n < 0 \<or> m < 0 then Inl ''CircuitError''
      else Inr \<lparr>circ_name = nm, num_qubits = nat n, cregs = [(''c'', nat m)], instrs = []\<rparr>)"

text \<open>A qubit argument is an index into the qubits; a negative one counts from the end.\<close>

definition qubit_index :: "circuit \<Rightarrow> int \<Rightarrow> nat option" where
  "qubit_index c q =
     (let n = int (num_qubits c); j = (if q < 0 then n + q else q)
      in if 0 \<le> j \<and> j < n then Some (nat j) else None)"

definition circuit_h :: "int \<Rightarrow> circuit \<Rightarrow> string + circuit" where
  "circuit_h q c =
     (case qubit_index c q of
        None \<Rightarrow> Inl ''CircuitError''
      | Some i \<Rightarrow> Inr (c\<lparr>instrs := instrs c @ [H i]\<rparr>))"

definition circuit_cx :: "int \<Rightarrow> int \<Rightarrow> circuit \<Rightarrow> string + circuit" where
  "circuit_cx ctl tgt c =
     (case (qubit_index c ctl, qubit_index c tgt) of
        (Some i, Some j) \<Rightarrow>
          if i = j then Inl ''CircuitError'' else Inr (c\<lparr>instrs := instrs c @ [CX i j]\<rparr>)
      | _ \<Rightarrow> Inl ''CircuitError'')"

text \<open>
  \<^verbatim>\<open>measure_all()\<close> with its defaults: a new register \<^verbatim>\<open>meas\<close> with one bit per qubit,
  a barrier over all qubits, and qubit \<open>i\<close> measured into \<^verbatim>\<open>meas[i]\<close>.
\<close>

definition circuit_measure_all :: "circuit \<Rightarrow> circuit" where
  "circuit_measure_all c =
     c\<lparr>cregs := cregs c @ [(''meas'', num_qubits c)],
       instrs := instrs c @ Barrier [0..<num_qubits c] #
                 map (\<lambda>q. Measure q ''meas'' q) [0..<num_qubits c]\<rparr>"

text \<open>The wires of a drawing: one per qubit, one per classical register with its size.\<close>

datatype wire = Qubit nat | Creg string nat

definition wires :: "circuit \<Rightarrow> wire list" where
  "wires c = map Qubit [0..<num_qubits c] @ map (\<lambda>(nm, k). Creg nm k) (cregs c)"

text \<open>
  The drawing the notebook records under the circuit cell, read off row by row and column
  by column: rows \<^verbatim>\<open>q_0\<close>, \<^verbatim>\<open>q_1\<close>, \<^verbatim>\<open>c: 2/\<close>, \<^verbatim>\<open>meas: 2/\<close>; columns H on
  \<^verbatim>\<open>q_0\<close>, the controlled X from \<^verbatim>\<open>q_0\<close> to \<^verbatim>\<open>q_1\<close>, the barrier, and the two
  measurements, which end on \<^verbatim>\<open>meas\<close> at 0 and 1.
\<close>

definition recorded_wires :: "wire list" where
  "recorded_wires = [Qubit 0, Qubit 1, Creg ''c'' 2, Creg ''meas'' 2]"

definition recorded_columns :: "instr list" where
  "recorded_columns = [H 0, CX 0 1, Barrier [0, 1], Measure 0 ''meas'' 0, Measure 1 ''meas'' 1]"

subsection \<open>The libraries of the recorded run\<close>

text \<open>
  The notebook is stored with the outputs of one run: the device status \<^verbatim>\<open>online\<close>, the
  drawing, \<^verbatim>\<open>JobStatus.DONE\<close>, the job id, \<^verbatim>\<open>Job success: True\<close>, and the counts
  \<^verbatim>\<open>{'11': 52, '0': 47, '1': 1}\<close>. The libraries below answer as they did in that run.
  Their objects are the ones the notebook meets; their state is the circuit object and the
  circuit handed to \<^verbatim>\<open>execute\<close>; their exceptions are named by their class.
\<close>

datatype obj =
    BackendList
  | Backend string
  | BackendStatus
  | CircuitObj
  | Drawing "wire list" "instr list"
  | Job string
  | JobStatus string
  | Result string
  | Figure
  | FileObj string

record sdk_state =
  built :: "circuit option"
  submitted :: "circuit option"

definition recorded_job_id :: string where
  "recorded_job_id = ''f151861654594c8fb718541dede4476d''"

definition recorded_counts :: "(string \<times> int) list" where
  "recorded_counts = [(''11'', 52), (''0'', 47), (''1'', 1)]"

definition recorded_func ::
  "string \<Rightarrow> obj val list \<Rightarrow> (string \<times> obj val) list \<Rightarrow> sdk_state \<Rightarrow> (string + obj val) \<times> sdk_state" where
  "recorded_func f args kw s =
     (if f = ''Quantinuum.save_account'' then (Inr PyNone, s)
      else if f = ''Quantinuum.load_account'' then (Inr PyNone, s)
      else if f = ''Quantinuum.backends'' then (Inr (PyObj BackendList), s)
      else if f = ''Quantinuum.get_backend'' then
        (case args of [PyStr d] \<Rightarrow> (Inr (PyObj (Backend d)), s) | _ \<Rightarrow> (Inl ''TypeError'', s))
      else if f = ''QuantumCircuit'' then
        (case (args, kw) of
           ([PyInt n, PyInt m], [(k, PyStr nm)]) \<Rightarrow>
             (case QuantumCircuit n m nm of
                Inl e \<Rightarrow> (Inl e, s)
              | Inr c \<Rightarrow> (Inr (PyObj CircuitObj), s\<lparr>built := Some c\<rparr>))
         | _ \<Rightarrow> (Inl ''TypeError'', s))
      else if f = ''execute'' then
        (case args of
           [PyObj CircuitObj, PyObj (Backend d)] \<Rightarrow>
             (Inr (PyObj (Job recorded_job_id)), s\<lparr>submitted := built s\<rparr>)
         | _ \<Rightarrow> (Inl ''TypeError'', s))
      else if f = ''plot_histogram'' then (Inr (PyObj Figure), s)
      else (Inl ''NameError'', s))"

definition on_circuit :: "(circuit \<Rightarrow> string + circuit) \<Rightarrow> sdk_state \<Rightarrow> (string + obj val) \<times> sdk_state" where
  "on_circuit g s =
     (case built s of
        None \<Rightarrow> (Inl ''AttributeError'', s)
      | Some c \<Rightarrow>
          (case g c of
             Inl e \<Rightarrow> (Inl e, s)
           | Inr c' \<Rightarrow> (Inr PyNone, s\<lparr>built := Some c'\<rparr>)))"

definition recorded_method ::
  "obj val \<Rightarrow> string \<Rightarrow> obj val list \<Rightarrow> sdk_state \<Rightarrow> (string + obj val) \<times> sdk_state" where
  "recorded_method recv m args s =
     (case recv of
        PyObj (Backend d) \<Rightarrow>
          (if m = ''status'' then (Inr (PyObj BackendStatus), s)
           else if m = ''retrieve_job'' then
             (case args of
                [PyStr j] \<Rightarrow>
                  if j = recorded_job_id then (Inr (PyObj (Job j)), s)
                  else (Inl ''QuantinuumAPIError'', s)
              | _ \<Rightarrow> (Inl ''TypeError'', s))
           else (Inl ''AttributeError'', s))
      | PyObj CircuitObj \<Rightarrow>
          (if m = ''h'' then
             (case args of [PyInt q] \<Rightarrow> on_circuit (circuit_h q) s | _ \<Rightarrow> (Inl ''TypeError'', s))
           else if m = ''cx'' then
             (case args of
                [PyInt q, PyInt r] \<Rightarrow> on_circuit (circuit_cx q r) s
              | _ \<Rightarrow> (Inl ''TypeError'', s))
           else if m = ''measure_all'' then on_circuit (\<lambda>c. Inr (circuit_measure_all c)) s
           else if m = ''draw'' then
             (case built s of
                None \<Rightarrow> (Inl ''AttributeError'', s)
              | Some c \<Rightarrow> (Inr (PyObj (Drawing (wires c) (instrs c))), s))
           else (Inl ''AttributeError'', s))
      | PyObj (Job j) \<Rightarrow>
          (if m = ''status'' then (Inr (PyObj (JobStatus ''DONE'')), s)
           else if m = ''result'' then (Inr (PyObj (Result j)), s)
           else (Inl ''AttributeError'', s))
      | PyObj (Result j) \<Rightarrow>
          (if m = ''get_counts'' then (Inr (PyDict recorded_counts), s)
           else (Inl ''AttributeError'', s))
      | _ \<Rightarrow> (Inl ''AttributeError'', s))"

definition recorded_attr :: "obj val \<Rightarrow> string \<Rightarrow> string + obj val" where
  "recorded_attr recv a =
     (case recv of
        PyObj BackendStatus \<Rightarrow>
          if a = ''status_msg'' then Inr (PyStr ''online'') else Inl ''AttributeError''
      | PyObj (Result j) \<Rightarrow>
          if a = ''job_id'' then Inr (PyStr j)
          else if a = ''success'' then Inr (PyBool True)
          else Inl ''AttributeError''
      | _ \<Rightarrow> Inl ''AttributeError'')"

definition recorded_respond :: "environ \<Rightarrow> obj call \<Rightarrow> sdk_state \<Rightarrow> (string + obj val) \<times> sdk_state" where
  "recorded_respond env c s =
     (case c of
        Import m \<Rightarrow> (Inr PyNone, s)
      | Call f args kw \<Rightarrow> recorded_func f args kw s
      | Method recv m args \<Rightarrow> recorded_method recv m args s
      | Attr recv a \<Rightarrow> (recorded_attr recv a, s)
      | Open name mode \<Rightarrow> (Inr (PyObj (FileObj name)), s)
      | JsonDump v \<Rightarrow> (Inr PyNone, s))"

text \<open>Decimal digits, for \<^verbatim>\<open>str\<close> of an integer.\<close>

definition digit_char :: "nat \<Rightarrow> char" where
  "digit_char d = ''0123456789'' ! d"

function show_nat :: "nat \<Rightarrow> string" where
  "show_nat n = (if n < 10 then [digit_char n] else show_nat (n div 10) @ [digit_char (n mod 10)])"
  by pat_completeness auto
termination
  by (relation "measure id") auto

declare show_nat.simps [simp del]

definition show_int :: "int \<Rightarrow> string" where
  "show_int i = (if i < 0 then CHR ''-'' # show_nat (nat (- i)) else show_nat (nat i))"

fun join :: "string \<Rightarrow> string list \<Rightarrow> string" where
  "join sep [] = []"
| "join sep [x] = x"
| "join sep (x # y # ys) = x @ sep @ join sep (y # ys)"

text \<open>
  The JSON text of a dictionary of counts, with the encoder's default separators. The keys
  are taken to be made of characters that JSON writes as they are, as digits are.
\<close>

definition json_counts :: "(string \<times> int) list \<Rightarrow> string" where
  "json_counts kv =
     ''{'' @ join '', '' (map (\<lambda>(k, v). [CHR 0x22] @ k @ [CHR 0x22] @ '': '' @ show_int v) kv) @ ''}''"

definition recorded_json_dump :: "obj val \<Rightarrow> string \<times> string option" where
  "recorded_json_dump v =
     (case v of
        PyNone \<Rightarrow> (''null'', None)
      | PyStr s \<Rightarrow> ([CHR 0x22] @ s @ [CHR 0x22], None)
      | PyInt i \<Rightarrow> (show_int i, None)
      | PyBool b \<Rightarrow> (if b then ''true'' else ''false'', None)
      | PyDict kv \<Rightarrow> (json_counts kv, None)
      | PyObj x \<Rightarrow> ([], Some ''TypeError''))"

definition recorded_render :: "obj val \<Rightarrow> string" where
  "recorded_render v =
     (case v of
        PyNone \<Rightarrow> ''None''
      | PyStr s \<Rightarrow> s
      | PyInt i \<Rightarrow> show_int i
      | PyBool b \<Rightarrow> (if b then ''True'' else ''False'')
      | PyDict kv \<Rightarrow>
          ''{'' @ join '', '' (map (\<lambda>(k, v). [CHR 0x27] @ k @ [CHR 0x27] @ '': '' @ show_int v) kv) @ ''}''
      | PyObj x \<Rightarrow> ''<object>'')"

definition recorded_libs :: "(obj, string, sdk_state) libs" where
  "recorded_libs =
     \<lparr>respond = recorded_respond, json_dump = recorded_json_dump, render = recorded_render\<rparr>"

text \<open>A fresh kernel: nothing built, no files, nothing shown, no call made.\<close>

definition fresh :: "(obj, string, sdk_state) world" where
  "fresh = \<lparr>ext = \<lparr>built = None, submitted = None\<rparr>, files = Map.empty, shown = [], trace = []\<rparr>"

subsection \<open>Reading a trace\<close>

text \<open>The name under which a call appears in the source.\<close>

fun call_name :: "'o call \<Rightarrow> string" where
  "call_name (Import m) = ''import''"
| "call_name (Call f args kw) = f"
| "call_name (Method recv m args) = m"
| "call_name (Attr recv a) = a"
| "call_name (Open name mode) = ''open''"
| "call_name (JsonDump v) = ''json.dump''"

definition names :: "('o call \<times> ('x + 'o val)) list \<Rightarrow> string list" where
  "names t = map (\<lambda>x. call_name (fst x)) t"

text \<open>The steps of a trace: its calls other than imports.\<close>

definition steps :: "('o call \<times> ('x + 'o val)) list \<Rightarrow> string list" where
  "steps t = filter (\<lambda>n. n \<noteq> ''import'') (names t)"

text \<open>The calls of each code cell, in the order the cell makes them.\<close>

definition import_calls :: "string list" where
  "import_calls = [''import'', ''import'', ''import'', ''import'']"

definition credential_calls :: "string list" where
  "credential_calls = [''Quantinuum.save_account'', ''Quantinuum.load_account'']"

definition discovery_calls :: "string list" where
  "discovery_calls = [''Quantinuum.backends'']"

definition status_check_calls :: "string list" where
  "status_check_calls = [''Quantinuum.get_backend'', ''status'', ''status_msg'']"

definition construction_calls :: "string list" where
  "construction_calls = [''QuantumCircuit'', ''h'', ''cx'', ''measure_all'', ''draw'']"

definition submission_calls :: "string list" where
  "submission_calls = [''execute'']"

definition status_query_calls :: "string list" where
  "status_query_calls = [''status'']"

definition retrieval_calls :: "string list" where
  "retrieval_calls = [''result'', ''job_id'', ''success'']"

definition counting_calls :: "string list" where
  "counting_calls = [''get_counts'']"

definition plotting_calls :: "string list" where
  "plotting_calls = [''plot_histogram'']"

definition persistence_calls :: "string list" where
  "persistence_calls = [''job_id'', ''open'', ''get_counts'', ''json.dump'']"

definition past_job_calls :: "string list" where
  "past_job_calls = [''Quantinuum.get_backend'', ''retrieve_job'', ''result'', ''get_counts'']"

text \<open>
  The order the specification gives: credential save/load, backend discovery, backend
  status check, circuit construction, circuit submission, job-status query, result
  retrieval, result counting, plotting, result persistence; and nothing after it.
\<close>

definition before_persistence :: "string list" where
  "before_persistence =
     credential_calls @ discovery_calls @ status_check_calls @ construction_calls @
     submission_calls @ status_query_calls @ retrieval_calls @ counting_calls @
     plotting_calls"

definition spec_order :: "string list" where
  "spec_order = before_persistence @ persistence_calls"

text \<open>
  The order of the file: the imports first, \<^verbatim>\<open>import json\<close> at the head of the saving
  cell, the cell for past jobs last.
\<close>

definition file_order :: "string list" where
  "file_order =
     import_calls @ before_persistence @ [''import''] @ persistence_calls @ past_job_calls"


text \<open>A statement keeps the files when no run of it changes any file.\<close>

definition keeps_files :: "('o, 'x, 's, 'a) nb \<Rightarrow> bool" where
  "keeps_files m \<longleftrightarrow> (\<forall>w. files (snd (m w)) = files w)"

text \<open>The keys of the dictionaries handed to \<^verbatim>\<open>json.dump\<close> in a trace.\<close>

fun dumped_keys :: "('o call \<times> ('x + 'o val)) list \<Rightarrow> string list" where
  "dumped_keys [] = []"
| "dumped_keys ((JsonDump (PyDict kv), r) # t) = map fst kv @ dumped_keys t"
| "dumped_keys (x # t) = dumped_keys t"

text \<open>
  The claim that a job's result is asked for only after a status query has reported the
  job done, read over a trace from left to right: \<open>seen\<close> says whether such a report has
  been met.
\<close>

fun job_result_call :: "obj call \<Rightarrow> bool" where
  "job_result_call (Method (PyObj (Job j)) m args) = (m = ''result'')"
| "job_result_call c = False"

fun reports_done :: "obj call \<times> (string + obj val) \<Rightarrow> bool" where
  "reports_done (Method (PyObj (Job j)) m args, Inr v) =
     (m = ''status'' \<and> v = PyObj (JobStatus ''DONE''))"
| "reports_done x = False"

fun result_only_after_done :: "bool \<Rightarrow> (obj call \<times> (string + obj val)) list \<Rightarrow> bool" where
  "result_only_after_done seen [] = True"
| "result_only_after_done seen (x # t) =
     (if job_result_call (fst x) then seen \<and> result_only_after_done seen t
      else result_only_after_done (seen \<or> reports_done x) t)"

text \<open>The libraries of the recorded run, but with the job still queued when it is asked.\<close>

definition queued_libs :: "(obj, string, sdk_state) libs" where
  "queued_libs =
     recorded_libs\<lparr>respond := \<lambda>env c s.
       if c = Method (PyObj (Job recorded_job_id)) ''status'' []
       then (Inr (PyObj (JobStatus ''QUEUED'')), s)
       else recorded_respond env c s\<rparr>"

text \<open>
  The circuit of the claim: two qubits, two classical bits, a Hadamard gate on qubit 0, a
  controlled X from qubit 0 to qubit 1, the measurement of qubits 0 and 1, nothing else.
\<close>

fun measures :: "instr list \<Rightarrow> nat list option" where
  "measures [] = Some []"
| "measures (Measure q nm b # is) = map_option ((#) q) (measures is)"
| "measures (i # is) = None"

definition claimed_bell :: "circuit \<Rightarrow> bool" where
  "claimed_bell c \<longleftrightarrow>
     num_qubits c = 2 \<and> num_clbits c = 2 \<and>
     take 2 (instrs c) = [H 0, CX 0 1] \<and> measures (drop 2 (instrs c)) = Some [0, 1]"

text \<open>
  The libraries of the recorded run, but with a service that knows a job under whatever
  id the last cell asks for, so that the last cell runs to its end.
\<close>

definition obliging_libs :: "(obj, string, sdk_state) libs" where
  "obliging_libs =
     recorded_libs\<lparr>respond := \<lambda>env c s.
       (case c of
          Method (PyObj (Backend d)) m [PyStr j] \<Rightarrow>
            if m = ''retrieve_job'' then (Inr (PyObj (Job j)), s)
            else recorded_respond env c s
        | _ \<Rightarrow> recorded_respond env c s)\<rparr>"

text \<open>The environment variable the notebook's introduction names.\<close>

definition api_key_var :: string where
  "api_key_var = ''QUANTINUUM_API_KEY''"

subsection \<open>The run of the whole notebook, call by call\<close>

text \<open>
  The values the calls of a trace returned, in order (\<^verbatim>\<open>None\<close> where a call raised), and
  the value of the call at one position.
\<close>

definition answer :: "'o val list \<Rightarrow> nat \<Rightarrow> 'o val" where
  "answer rs i = (if i < length rs then rs ! i else PyNone)"

definition answers :: "('o call \<times> ('x + 'o val)) list \<Rightarrow> 'o val list" where
  "answers t = map (\<lambda>x. case snd x of Inr v \<Rightarrow> v | Inl e \<Rightarrow> PyNone) t"

text \<open>The number of calls of a trace that returned.\<close>

definition returned :: "('o call \<times> ('x + 'o val)) list \<Rightarrow> nat" where
  "returned t = length (filter (\<lambda>x. \<not> isl (snd x)) t)"

text \<open>The text an f-string puts for a job id: a string stands for itself.\<close>

definition job_id_text :: "('o, 'x, 's) libs \<Rightarrow> 'o val \<Rightarrow> string" where
  "job_id_text L jid = (case jid of PyStr j \<Rightarrow> j | _ \<Rightarrow> render L jid)"

text \<open>
  The calls of the file, in the order of the file, with their receivers and arguments:
  each is a literal of the notebook or the value an earlier call returned (positions
  count from 0). Position 7 is \<^verbatim>\<open>backend\<close>, 8 \<^verbatim>\<open>status\<close>, 10 \<^verbatim>\<open>circuit\<close>, 15 \<^verbatim>\<open>job\<close>,
  17 \<^verbatim>\<open>result\<close>, 20 \<^verbatim>\<open>counts\<close>, 23 the job id read in the saving cell, 25 the counts
  read there; 27 to 29 are \<^verbatim>\<open>backend\<close>, \<^verbatim>\<open>job\<close> and \<^verbatim>\<open>result\<close> of the last cell.
\<close>

definition file_calls :: "('o, 'x, 's) libs \<Rightarrow> 'o val list \<Rightarrow> 'o call list" where
  "file_calls L rs =
     [Import ''numpy'', Import ''qiskit'', Import ''qiskit_quantinuum'',
      Import ''qiskit.visualization'',
      Call ''Quantinuum.save_account'' [] [(''user_name'', PyStr ''first.last@company.com'')],
      Call ''Quantinuum.load_account'' [] [],
      Call ''Quantinuum.backends'' [] [],
      Call ''Quantinuum.get_backend'' [PyStr ''H1-2E''] [],
      Method (answer rs 7) ''status'' [],
      Attr (answer rs 8) ''status_msg'',
      Call ''QuantumCircuit'' [PyInt 2, PyInt 2] [(''name'', PyStr ''Bell Test'')],
      Method (answer rs 10) ''h'' [PyInt 0],
      Method (answer rs 10) ''cx'' [PyInt 0, PyInt 1],
      Method (answer rs 10) ''measure_all'' [],
      Method (answer rs 10) ''draw'' [],
      Call ''execute'' [answer rs 10, answer rs 7] [(''shots'', PyInt 100)],
      Method (answer rs 15) ''status'' [],
      Method (answer rs 15) ''result'' [],
      Attr (answer rs 17) ''job_id'',
      Attr (answer rs 17) ''success'',
      Method (answer rs 17) ''get_counts'' [],
      Call ''plot_histogram'' [answer rs 20] [],
      Import ''json'',
      Attr (answer rs 17) ''job_id'',
      Open (''results_'' @ job_id_text L (answer rs 23) @ ''.json'') ''w'',
      Method (answer rs 17) ''get_counts'' [],
      JsonDump (answer rs 25),
      Call ''Quantinuum.get_backend'' [PyStr ''H1-2E''] [],
      Method (answer rs 27) ''retrieve_job'' [PyStr ''insert job id''],
      Method (answer rs 28) ''result'' [],
      Method (answer rs 29) ''get_counts'' []]"

text \<open>
  What the notebook displays once \<open>n\<close> calls have returned: the cell values that are not
  \<^verbatim>\<open>None\<close> and the printed lines, each after the call whose value it shows.
\<close>

definition cell_value :: "'o val \<Rightarrow> 'o val list list" where
  "cell_value v = (if v = PyNone then [] else [[v]])"

definition file_shows :: "'o val list \<Rightarrow> nat \<Rightarrow> 'o val list list" where
  "file_shows rs n =
     (if 5 < n then cell_value (answer rs 5) else []) @
     (if 6 < n then cell_value (answer rs 6) else []) @
     (if 9 < n then [[PyStr ''H1-2E'', PyStr ''status :'', answer rs 9]] else []) @
     (if 14 < n then cell_value (answer rs 14) else []) @
     (if 16 < n then cell_value (answer rs 16) else []) @
     (if 18 < n then [[PyStr ''Job ID:'', answer rs 18]] else []) @
     (if 19 < n then [[PyStr ''Job success:'', answer rs 19]] else []) @
     (if 20 < n then [[PyStr ''Total count for 00 and 11 are:'', answer rs 20]] else []) @
     (if 21 < n then cell_value (answer rs 21) else []) @
     (if 30 < n then [[answer rs 30]] else [])"

text \<open>
  The files after a run of \<open>k\<close> calls of which \<open>n\<close> returned: as they were until
  \<^verbatim>\<open>open\<close> (position 24) has returned; then the results file is empty; and it holds what
  \<^verbatim>\<open>json.dump\<close> (position 26) wrote once that call was made.
\<close>

definition file_writes ::
  "('o, 'x, 's) libs \<Rightarrow> 'o val list \<Rightarrow> nat \<Rightarrow> nat \<Rightarrow> (string \<rightharpoonup> string) \<Rightarrow> (string \<rightharpoonup> string)" where
  "file_writes L rs k n fs =
     (if 26 < k then fs(''results_'' @ job_id_text L (answer rs 23) @ ''.json'' \<mapsto>
                        fst (json_dump L (answer rs 25)))
      else if 24 < n then fs(''results_'' @ job_id_text L (answer rs 23) @ ''.json'' \<mapsto> [])
      else fs)"

text \<open>Ways of reading the process environment, by the name of the call.\<close>

definition reads_environ :: "'o call \<Rightarrow> bool" where
  "reads_environ c \<longleftrightarrow>
     call_name c \<in> set [''os.getenv'', ''os.getenvb'', ''os.environ'', ''os.environ.get'',
                         ''getenv'', ''environ'']"

text \<open>
  Libraries that keep the account: \<^verbatim>\<open>save_account\<close> stores the user name it is given, and
  \<^verbatim>\<open>load_account\<close>, which takes no argument, finds it there or raises. All other calls are
  answered as in the recorded run.
\<close>

definition storing_respond ::
  "environ \<Rightarrow> obj call \<Rightarrow> sdk_state \<times> string option \<Rightarrow> (string + obj val) \<times> sdk_state \<times> string option" where
  "storing_respond env c sa =
     (if call_name c = ''Quantinuum.save_account'' then
        (case c of
           Call f args [(k, PyStr u)] \<Rightarrow> (Inr PyNone, (fst sa, Some u))
         | _ \<Rightarrow> (Inl ''TypeError'', sa))
      else if call_name c = ''Quantinuum.load_account'' then
        (case snd sa of
           None \<Rightarrow> (Inl ''QuantinuumError'', sa)
         | Some u \<Rightarrow> (Inr PyNone, sa))
      else
        (case recorded_respond env c (fst sa) of (r, s') \<Rightarrow> (r, (s', snd sa))))"

definition storing_libs :: "(obj, string, sdk_state \<times> string option) libs" where
  "storing_libs =
     \<lparr>respond = storing_respond, json_dump = recorded_json_dump, render = recorded_render\<rparr>"

definition nothing_stored :: "(obj, string, sdk_state \<times> string option) world" where
  "nothing_stored =
     \<lparr>ext = (\<lparr>built = None, submitted = None\<rparr>, None), files = Map.empty, shown = [], trace = []\<rparr>"

text \<open>What outlasts a step: the files and the account the libraries keep.\<close>

definition persistent ::
  "(obj, string, sdk_state \<times> string option) world \<Rightarrow> (string \<rightharpoonup> string) \<times> string option" where
  "persistent w = (files w, snd (ext w))"

text \<open>
  The form of a run: result \<open>r\<close>, calls \<open>t\<close>, displays \<open>ds\<close> and files \<open>fs\<close>, from the
  files \<open>fs0\<close>. A statement reaches this form from a point of the run when every run of
  it from there ends in it.
\<close>

definition run_form ::
  "('o, 'x, 's) libs \<Rightarrow> (string \<rightharpoonup> string) \<Rightarrow> ('x + 'o val) \<Rightarrow>
   ('o call \<times> ('x + 'o val)) list \<Rightarrow> 'o val list list \<Rightarrow> (string \<rightharpoonup> string) \<Rightarrow> bool" where
  "run_form L fs0 r t ds fs \<longleftrightarrow>
     map fst t = take (length t) (file_calls L (answers t)) \<and>
     ds = file_shows (answers t) (returned t) \<and>
     fs = file_writes L (answers t) (length t) (returned t) fs0 \<and>
     (case r of
        Inr v \<Rightarrow> length t = 31 \<and> list_all (\<lambda>x. \<not> isl (snd x)) t \<and> v = answer (answers t) 30
      | Inl e \<Rightarrow> t \<noteq> [] \<and> snd (last t) = Inl e \<and>
                 list_all (\<lambda>x. \<not> isl (snd x)) (butlast t))"

definition reaches ::
  "('o, 'x, 's) libs \<Rightarrow> ('o, 'x, 's) world \<Rightarrow> ('o call \<times> ('x + 'o val)) list \<Rightarrow>
   'o val list list \<Rightarrow> (string \<rightharpoonup> string) \<Rightarrow> ('o, 'x, 's, 'o val) nb \<Rightarrow> bool" where
  "reaches L w0 pre ds fs m \<longleftrightarrow>
     (\<forall>w. trace w = trace w0 @ pre \<and> shown w = shown w0 @ ds \<and> files w = fs \<longrightarrow>
        (\<exists>t ds' fs'. trace (snd (m w)) = trace w0 @ t \<and> shown (snd (m w)) = shown w0 @ ds' \<and>
           files (snd (m w)) = fs' \<and> run_form L (files w0) (fst (m w)) t ds' fs'))"

text \<open>
  A statement writes the results file only when every run of it leaves the files as they
  were, but for at most one file with a name of the form \<^verbatim>\<open>results_<job_id>.json\<close>.
\<close>

definition writes_results_only :: "('o, 'x, 's) libs \<Rightarrow> ('o, 'x, 's, 'a) nb \<Rightarrow> bool" where
  "writes_results_only L m \<longleftrightarrow>
     (\<forall>w. files (snd (m w)) = files w \<or>
          (\<exists>jid text. files (snd (m w)) = (files w)(''results_'' @ job_id_text L jid @ ''.json'' \<mapsto> text)))"

section \<open>Running statements\<close>

lemma nb_bind_fst_Inl: "fst (m w) = Inl e \<Longrightarrow> nb_bind m f w = (Inl e, snd (m w))"
  by (cases "m w") (simp add: nb_bind_def)

lemma nb_bind_fst_Inr: "fst (m w) = Inr a \<Longrightarrow> nb_bind m f w = f a (snd (m w))"
  by (cases "m w") (simp add: nb_bind_def)


subsection \<open>The calls a statement makes\<close>



























subsection \<open>The files a statement changes\<close>

lemma keeps_files_return: "keeps_files (nb_return a)"
  by (simp add: keeps_files_def nb_return_def)

lemma keeps_files_print: "keeps_files (print vs)"
  by (simp add: keeps_files_def print_def)

lemma keeps_files_display: "keeps_files (display v)"
  by (simp add: keeps_files_def display_def)

lemma keeps_files_invoke: "keeps_files (invoke L env c)"
  by (simp add: keeps_files_def invoke_def split: prod.splits)

lemma keeps_files_bind:
  assumes m: "keeps_files m" and f: "\<And>a. keeps_files (f a)"
  shows "keeps_files (nb_bind m f)"
  unfolding keeps_files_def
proof
  fix w
  show "files (snd (nb_bind m f w)) = files w"
  proof (cases "fst (m w)")
    case (Inl e)
    then show ?thesis using m by (simp add: nb_bind_fst_Inl keeps_files_def)
  next
    case (Inr a)
    then show ?thesis using m f [of a] by (simp add: nb_bind_fst_Inr keeps_files_def)
  qed
qed

lemmas keeps_files_rules =
  keeps_files_bind keeps_files_invoke keeps_files_print keeps_files_display keeps_files_return

lemma writes_results_only_after:
  assumes m: "keeps_files m" and f: "\<And>a. writes_results_only L (f a)"
  shows "writes_results_only L (nb_bind m f)"
  unfolding writes_results_only_def
proof
  fix w
  show "files (snd (nb_bind m f w)) = files w \<or>
        (\<exists>jid text. files (snd (nb_bind m f w)) =
           (files w)(''results_'' @ job_id_text L jid @ ''.json'' \<mapsto> text))"
  proof (cases "fst (m w)")
    case (Inl e)
    then show ?thesis using m by (simp add: nb_bind_fst_Inl keeps_files_def)
  next
    case (Inr a)
    have "files (snd (m w)) = files w" using m by (simp add: keeps_files_def)
    moreover have "nb_bind m f w = f a (snd (m w))" using Inr by (rule nb_bind_fst_Inr)
    ultimately show ?thesis using f [of a]
      unfolding writes_results_only_def by metis
  qed
qed

lemma open_w_Inl_files:
  "fst (open_w L env name w) = Inl e \<Longrightarrow> files (snd (open_w L env name w)) = files w"
  by (simp add: open_w_def invoke_def split: prod.splits sum.splits)

lemma open_w_Inr_files:
  "fst (open_w L env name w) = Inr f \<Longrightarrow> files (snd (open_w L env name w)) = (files w)(name \<mapsto> [])"
  by (simp add: open_w_def invoke_def split: prod.splits sum.splits)

lemma json_dump_to_files:
  "\<exists>text. files (snd (json_dump_to L name v w)) = (files w)(name \<mapsto> text)"
  by (auto simp: json_dump_to_def Let_def split: prod.splits option.splits)

lemma with_open_files:
  "files (snd (nb_bind (open_w L env name) (\<lambda>f.
      nb_bind (invoke L env c) (\<lambda>v. json_dump_to L name v)) w)) = files w \<or>
   (\<exists>text. files (snd (nb_bind (open_w L env name) (\<lambda>f.
      nb_bind (invoke L env c) (\<lambda>v. json_dump_to L name v)) w)) = (files w)(name \<mapsto> text))"
proof (cases "fst (open_w L env name w)")
  case (Inl e)
  then show ?thesis by (simp add: nb_bind_fst_Inl open_w_Inl_files)
next
  case opened: (Inr f)
  let ?w1 = "snd (open_w L env name w)"
  have f1: "files ?w1 = (files w)(name \<mapsto> [])" using opened by (rule open_w_Inr_files)
  show ?thesis
  proof (cases "fst (invoke L env c ?w1)")
    case (Inl e)
    have "files (snd (invoke L env c ?w1)) = files ?w1"
      using keeps_files_invoke [of L env c] by (simp add: keeps_files_def)
    then have "files (snd (nb_bind (open_w L env name) (\<lambda>f.
        nb_bind (invoke L env c) (\<lambda>v. json_dump_to L name v)) w)) = (files w)(name \<mapsto> [])"
      using Inl f1 opened by (simp add: nb_bind_fst_Inr nb_bind_fst_Inl)
    then show ?thesis by blast
  next
    case (Inr v)
    let ?w2 = "snd (invoke L env c ?w1)"
    have f2: "files ?w2 = (files w)(name \<mapsto> [])"
      using keeps_files_invoke [of L env c] f1 by (simp add: keeps_files_def)
    from json_dump_to_files [of L name v ?w2] obtain written
      where "files (snd (json_dump_to L name v ?w2)) = (files ?w2)(name \<mapsto> written)" by blast
    then have "files (snd (json_dump_to L name v ?w2)) = (files w)(name \<mapsto> written)"
      using f2 by simp
    then have "files (snd (nb_bind (open_w L env name) (\<lambda>f.
        nb_bind (invoke L env c) (\<lambda>v. json_dump_to L name v)) w)) = (files w)(name \<mapsto> written)"
      using Inr opened by (simp add: nb_bind_fst_Inr)
    then show ?thesis by blast
  qed
qed

lemma results_name_text: "results_name L jid = ''results_'' @ job_id_text L jid @ ''.json''"
  by (simp add: results_name_def format_field_def job_id_text_def)

lemma writes_results_only_with_open:
  "writes_results_only L
     (nb_bind (open_w L env (''results_'' @ job_id_text L jid @ ''.json''))
       (\<lambda>f. nb_bind (invoke L env c) (json_dump_to L (''results_'' @ job_id_text L jid @ ''.json''))))"
  unfolding writes_results_only_def
  using with_open_files [of L env "''results_'' @ job_id_text L jid @ ''.json''" c]
  by (metis (no_types, lifting))

lemma writes_results_only_cell_save: "writes_results_only L (cell_save L env result)"
  unfolding cell_save_def results_name_text
  by (intro writes_results_only_after keeps_files_invoke writes_results_only_with_open)

lemma keeps_files_cell_imports: "keeps_files (cell_imports L env)"
  unfolding cell_imports_def by (intro keeps_files_rules)

lemma keeps_files_cell_account: "keeps_files (cell_account L env)"
  unfolding cell_account_def by (intro keeps_files_rules)

lemma keeps_files_cell_backends: "keeps_files (cell_backends L env)"
  unfolding cell_backends_def by (intro keeps_files_rules)

lemma keeps_files_cell_device: "keeps_files (cell_device L env)"
  unfolding cell_device_def Let_def by (intro keeps_files_rules)

lemma keeps_files_cell_circuit: "keeps_files (cell_circuit L env)"
  unfolding cell_circuit_def Let_def by (intro keeps_files_rules)

lemma keeps_files_cell_submit: "keeps_files (cell_submit L env circuit backend)"
  unfolding cell_submit_def Let_def by (intro keeps_files_rules)

lemma keeps_files_cell_job_status: "keeps_files (cell_job_status L env job)"
  unfolding cell_job_status_def by (intro keeps_files_rules)

lemma keeps_files_cell_result: "keeps_files (cell_result L env job)"
  unfolding cell_result_def by (intro keeps_files_rules)

lemma keeps_files_cell_counts: "keeps_files (cell_counts L env result)"
  unfolding cell_counts_def by (intro keeps_files_rules)

lemma keeps_files_cell_plot: "keeps_files (cell_plot L env counts)"
  unfolding cell_plot_def by (intro keeps_files_rules)

lemma keeps_files_cell_past_job: "keeps_files (cell_past_job L env)"
  unfolding cell_past_job_def Let_def by (intro keeps_files_rules)

lemmas keeps_files_cells =
  keeps_files_cell_imports keeps_files_cell_account keeps_files_cell_backends
  keeps_files_cell_device keeps_files_cell_circuit keeps_files_cell_submit
  keeps_files_cell_job_status keeps_files_cell_result keeps_files_cell_counts
  keeps_files_cell_plot keeps_files_cell_past_job

subsection \<open>The recorded run, evaluated\<close>

lemmas cell_defs =
  cell_imports_def cell_account_def cell_backends_def cell_device_def cell_circuit_def
  cell_submit_def cell_job_status_def cell_result_def cell_counts_def cell_plot_def
  cell_save_def cell_past_job_def

lemmas statement_defs =
  nb_bind_def nb_return_def invoke_def print_def display_def open_w_def json_dump_to_def
  results_name_def format_field_def

lemmas recorded_defs =
  recorded_libs_def recorded_respond_def recorded_func_def recorded_method_def
  recorded_attr_def on_circuit_def recorded_json_dump_def recorded_render_def
  recorded_job_id_def recorded_counts_def fresh_def
  QuantumCircuit_def circuit_h_def circuit_cx_def circuit_measure_all_def qubit_index_def
  wires_def

lemmas order_defs =
  spec_order_def before_persistence_def file_order_def import_calls_def credential_calls_def
  discovery_calls_def status_check_calls_def construction_calls_def submission_calls_def
  status_query_calls_def retrieval_calls_def counting_calls_def plotting_calls_def
  persistence_calls_def past_job_calls_def

lemma upt_2: "[0..<2] = [0, Suc 0]"
  by (simp add: upt_rec)

lemma json_recorded_counts:
  "json_counts recorded_counts =
     ''{'' @ [CHR 0x22] @ ''11'' @ [CHR 0x22] @ '': 52, '' @ [CHR 0x22] @ ''0'' @ [CHR 0x22] @
     '': 47, '' @ [CHR 0x22] @ ''1'' @ [CHR 0x22] @ '': 1}''"
  by (simp add: json_counts_def recorded_counts_def show_int_def show_nat.simps digit_char_def)


lemma recorded_run_names:
  "names (trace (snd (notebook recorded_libs Map.empty fresh))) =
     import_calls @ before_persistence @ [''import''] @ persistence_calls @
     [''Quantinuum.get_backend'', ''retrieve_job'']"
  by (simp add: notebook_def cell_defs statement_defs recorded_defs Let_def upt_2
        names_def order_defs)

lemma recorded_run_ext:
  "ext (snd (notebook recorded_libs Map.empty fresh)) =
     \<lparr>built = Some \<lparr>circ_name = ''Bell Test'', num_qubits = 2,
                     cregs = [(''c'', 2), (''meas'', 2)], instrs = recorded_columns\<rparr>,
      submitted = Some \<lparr>circ_name = ''Bell Test'', num_qubits = 2,
                     cregs = [(''c'', 2), (''meas'', 2)], instrs = recorded_columns\<rparr>\<rparr>"
  by (simp add: notebook_def cell_defs statement_defs recorded_defs Let_def upt_2
        recorded_columns_def)

lemma recorded_run_files:
  "files (snd (notebook recorded_libs Map.empty fresh)) =
     [''results_f151861654594c8fb718541dede4476d.json'' \<mapsto> json_counts recorded_counts]"
  by (simp add: notebook_def cell_defs statement_defs recorded_defs Let_def upt_2)

lemma recorded_run_dumped:
  "dumped_keys (trace (snd (notebook recorded_libs Map.empty fresh))) = [''11'', ''0'', ''1'']"
  by (simp add: notebook_def cell_defs statement_defs recorded_defs Let_def upt_2)

subsection \<open>The run that goes to the end\<close>

lemmas obliging_defs = obliging_libs_def recorded_defs

lemma obliging_run_result:
  "fst (notebook obliging_libs Map.empty fresh) = Inr (PyDict recorded_counts)"
  by (simp add: notebook_def cell_defs statement_defs obliging_defs Let_def upt_2)

lemma steps_file_order: "filter (\<lambda>n. n \<noteq> ''import'') file_order = spec_order @ past_job_calls"
  by (simp add: order_defs)

lemma filter_take_prefix:
  "filter P (take k xs) = take (length (filter P (take k xs))) (filter P xs)"
proof (induction xs arbitrary: k)
  case Nil
  then show ?case by simp
next
  case (Cons x xs)
  then show ?case by (cases k) auto
qed

subsection \<open>The form of every run\<close>

lemma nb_bind_assoc: "nb_bind (nb_bind m f) g = nb_bind m (\<lambda>a. nb_bind (f a) g)"
  by (rule ext) (simp add: nb_bind_def split: prod.splits sum.splits)

lemma nb_return_bind: "nb_bind (nb_return a) g = g a"
  by (rule ext) (simp add: nb_bind_def nb_return_def)

lemma reaches_return:
  "run_form L (files w0) (Inr a) pre ds fs \<Longrightarrow> reaches L w0 pre ds fs (nb_return a)"
  by (simp add: reaches_def nb_return_def)

lemma reaches_print:
  "reaches L w0 pre (ds @ [vs]) fs (f ()) \<Longrightarrow> reaches L w0 pre ds fs (nb_bind (print vs) f)"
  by (simp add: reaches_def nb_bind_def print_def)

lemma reaches_display:
  "reaches L w0 pre (ds @ cell_value v) fs (f ()) \<Longrightarrow>
   reaches L w0 pre ds fs (nb_bind (display v) f)"
  by (simp add: reaches_def nb_bind_def display_def cell_value_def)

lemma reaches_invoke:
  fixes L :: "('o, 'x, 's) libs"
  assumes "\<And>e. run_form L (files w0) (Inl e) (pre @ [(c, Inl e)]) ds fs"
      and "\<And>v. reaches L w0 (pre @ [(c, Inr v)]) ds fs (f v)"
  shows "reaches L w0 pre ds fs (nb_bind (invoke L env c) f)"
  unfolding reaches_def
proof (intro allI impI)
  fix w :: "('o, 'x, 's) world"
  assume w: "trace w = trace w0 @ pre \<and> shown w = shown w0 @ ds \<and> files w = fs"
  obtain r s' where r: "respond L env c (ext w) = (r, s')" by (cases "respond L env c (ext w)")
  let ?w1 = "w\<lparr>ext := s', trace := trace w @ [(c, r)]\<rparr>"
  have i: "invoke L env c w = (r, ?w1)" by (simp add: invoke_def r)
  show "\<exists>t ds' fs'. trace (snd (nb_bind (invoke L env c) f w)) = trace w0 @ t \<and>
           shown (snd (nb_bind (invoke L env c) f w)) = shown w0 @ ds' \<and>
           files (snd (nb_bind (invoke L env c) f w)) = fs' \<and>
           run_form L (files w0) (fst (nb_bind (invoke L env c) f w)) t ds' fs'"
  proof (cases r)
    case (Inl e)
    then have "nb_bind (invoke L env c) f w = (Inl e, ?w1)" by (simp add: nb_bind_def i)
    then show ?thesis using assms(1) [of e] w Inl
      by (intro exI [of _ "pre @ [(c, Inl e)]"] exI [of _ ds] exI [of _ fs]) simp
  next
    case (Inr v)
    then have b: "nb_bind (invoke L env c) f w = f v ?w1" by (simp add: nb_bind_def i)
    have "trace ?w1 = trace w0 @ (pre @ [(c, Inr v)]) \<and> shown ?w1 = shown w0 @ ds \<and> files ?w1 = fs"
      using w Inr by simp
    with assms(2) [of v] show ?thesis unfolding reaches_def b by blast
  qed
qed

lemma reaches_open_w:
  fixes L :: "('o, 'x, 's) libs"
  assumes "\<And>e. run_form L (files w0) (Inl e) (pre @ [(Open name ''w'', Inl e)]) ds fs"
      and "\<And>v. reaches L w0 (pre @ [(Open name ''w'', Inr v)]) ds (fs(name \<mapsto> [])) (f v)"
  shows "reaches L w0 pre ds fs (nb_bind (open_w L env name) f)"
  unfolding reaches_def
proof (intro allI impI)
  fix w :: "('o, 'x, 's) world"
  assume w: "trace w = trace w0 @ pre \<and> shown w = shown w0 @ ds \<and> files w = fs"
  let ?c = "Open name ''w''"
  obtain r s' where r: "respond L env ?c (ext w) = (r, s')" by (cases "respond L env ?c (ext w)")
  let ?w1 = "w\<lparr>ext := s', trace := trace w @ [(?c, r)]\<rparr>"
  have i: "invoke L env ?c w = (r, ?w1)" by (simp add: invoke_def r)
  show "\<exists>t ds' fs'. trace (snd (nb_bind (open_w L env name) f w)) = trace w0 @ t \<and>
           shown (snd (nb_bind (open_w L env name) f w)) = shown w0 @ ds' \<and>
           files (snd (nb_bind (open_w L env name) f w)) = fs' \<and>
           run_form L (files w0) (fst (nb_bind (open_w L env name) f w)) t ds' fs'"
  proof (cases r)
    case (Inl e)
    then have "nb_bind (open_w L env name) f w = (Inl e, ?w1)"
      by (simp add: nb_bind_def open_w_def i)
    then show ?thesis using assms(1) [of e] w Inl
      by (intro exI [of _ "pre @ [(?c, Inl e)]"] exI [of _ ds] exI [of _ fs]) simp
  next
    case (Inr v)
    let ?w2 = "?w1\<lparr>files := (files ?w1)(name \<mapsto> [])\<rparr>"
    have b: "nb_bind (open_w L env name) f w = f v ?w2"
      using Inr by (simp add: nb_bind_def open_w_def i)
    have "trace ?w2 = trace w0 @ (pre @ [(?c, Inr v)]) \<and> shown ?w2 = shown w0 @ ds \<and>
          files ?w2 = fs(name \<mapsto> [])"
      using w Inr by simp
    with assms(2) [of v] show ?thesis unfolding reaches_def b by blast
  qed
qed

lemma reaches_json_dump_to:
  fixes L :: "('o, 'x, 's) libs"
  assumes "\<And>e. snd (json_dump L v) = Some e \<Longrightarrow>
             run_form L (files w0) (Inl e) (pre @ [(JsonDump v, Inl e)]) ds
               (fs(name \<mapsto> (case fs name of None \<Rightarrow> [] | Some old \<Rightarrow> old) @ fst (json_dump L v)))"
      and "snd (json_dump L v) = None \<Longrightarrow>
             reaches L w0 (pre @ [(JsonDump v, Inr PyNone)]) ds
               (fs(name \<mapsto> (case fs name of None \<Rightarrow> [] | Some old \<Rightarrow> old) @ fst (json_dump L v)))
               (f ())"
  shows "reaches L w0 pre ds fs (nb_bind (json_dump_to L name v) f)"
  unfolding reaches_def
proof (intro allI impI)
  fix w :: "('o, 'x, 's) world"
  assume w: "trace w = trace w0 @ pre \<and> shown w = shown w0 @ ds \<and> files w = fs"
  obtain body err where j: "json_dump L v = (body, err)" by (cases "json_dump L v")
  let ?fs = "fs(name \<mapsto> (case fs name of None \<Rightarrow> [] | Some old \<Rightarrow> old) @ body)"
  show "\<exists>t ds' fs'. trace (snd (nb_bind (json_dump_to L name v) f w)) = trace w0 @ t \<and>
           shown (snd (nb_bind (json_dump_to L name v) f w)) = shown w0 @ ds' \<and>
           files (snd (nb_bind (json_dump_to L name v) f w)) = fs' \<and>
           run_form L (files w0) (fst (nb_bind (json_dump_to L name v) f w)) t ds' fs'"
  proof (cases err)
    case (Some e)
    let ?w1 = "w\<lparr>files := ?fs, trace := trace w @ [(JsonDump v, Inl e)]\<rparr>"
    have "nb_bind (json_dump_to L name v) f w = (Inl e, ?w1)"
      using Some j w by (simp add: nb_bind_def json_dump_to_def Let_def)
    then show ?thesis using assms(1) [of e] w Some j
      by (intro exI [of _ "pre @ [(JsonDump v, Inl e)]"] exI [of _ ds] exI [of _ ?fs]) simp
  next
    case None
    let ?w1 = "w\<lparr>files := ?fs, trace := trace w @ [(JsonDump v, Inr PyNone)]\<rparr>"
    have b: "nb_bind (json_dump_to L name v) f w = f () ?w1"
      using None j w by (simp add: nb_bind_def json_dump_to_def Let_def)
    have "trace ?w1 = trace w0 @ (pre @ [(JsonDump v, Inr PyNone)]) \<and> shown ?w1 = shown w0 @ ds \<and>
          files ?w1 = ?fs"
      using w by simp
    with assms(2) None j show ?thesis unfolding reaches_def b by simp
  qed
qed

lemmas reaches_rules =
  reaches_invoke reaches_open_w reaches_json_dump_to reaches_print reaches_display
  reaches_return

lemmas run_form_defs =
  run_form_def file_calls_def file_shows_def file_writes_def answers_def returned_def
  answer_def cell_value_def results_name_def format_field_def job_id_text_def

lemma reaches_notebook: "reaches L w [] [] (files w) (notebook L env)"
  unfolding notebook_def cell_defs Let_def
  apply (simp only: nb_bind_assoc nb_return_bind)
  apply (intro reaches_rules)
  apply (simp_all add: run_form_defs)
  done

lemma call_names_file_calls: "map call_name (file_calls L rs) = file_order"
  by (simp add: file_calls_def order_defs)

lemma length_file_calls: "length (file_calls L rs) = 31"
  by (simp add: file_calls_def)

lemma notebook_run:
  "\<exists>t. trace (snd (notebook L env w)) = trace w @ t \<and>
       shown (snd (notebook L env w)) = shown w @ file_shows (answers t) (returned t) \<and>
       files (snd (notebook L env w)) =
         file_writes L (answers t) (length t) (returned t) (files w) \<and>
       map fst t = take (length t) (file_calls L (answers t)) \<and>
       (case fst (notebook L env w) of
          Inr v \<Rightarrow> length t = 31 \<and> list_all (\<lambda>x. \<not> isl (snd x)) t \<and> v = answer (answers t) 30
        | Inl e \<Rightarrow> t \<noteq> [] \<and> snd (last t) = Inl e \<and>
                   list_all (\<lambda>x. \<not> isl (snd x)) (butlast t))"
proof -
  have "trace w = trace w @ [] \<and> shown w = shown w @ [] \<and> files w = files w" by simp
  with reaches_notebook [of L w env] obtain t ds fs
    where "trace (snd (notebook L env w)) = trace w @ t"
      and "shown (snd (notebook L env w)) = shown w @ ds"
      and "files (snd (notebook L env w)) = fs"
      and "run_form L (files w) (fst (notebook L env w)) t ds fs"
    unfolding reaches_def by blast
  then show ?thesis unfolding run_form_def by (intro exI [of _ t]) simp
qed

lemma names_of_run:
  "map fst t = take (length t) (file_calls L rs) \<Longrightarrow> names t = take (length t) file_order"
proof -
  assume a: "map fst t = take (length t) (file_calls L rs)"
  have "names t = map call_name (map fst t)" by (simp add: names_def)
  also have "\<dots> = take (length t) (map call_name (file_calls L rs))"
    using a by (simp add: take_map)
  finally show ?thesis by (simp add: call_names_file_calls)
qed

lemma returned_all: "list_all (\<lambda>x. \<not> isl (snd x)) t \<Longrightarrow> returned t = length t"
  by (simp add: returned_def list_all_iff)

lemma returned_but_last:
  assumes "t \<noteq> []" and "snd (last t) = Inl e" and "list_all (\<lambda>x. \<not> isl (snd x)) (butlast t)"
  shows "returned t = length t - 1"
proof -
  have "t = butlast t @ [last t]" using assms(1) by simp
  then have "returned t = returned (butlast t) + returned [last t]"
    unfolding returned_def by (metis filter_append length_append)
  then show ?thesis using assms(2,3) by (simp add: returned_all) (simp add: returned_def)
qed

lemma answers_nth:
  "i < length t \<Longrightarrow> snd (t ! i) = Inr v \<Longrightarrow> answer (answers t) i = v"
  by (simp add: answer_def answers_def)

lemma call_of_run:
  "map fst t = take (length t) (file_calls L rs) \<Longrightarrow> i < length t \<Longrightarrow>
   fst (t ! i) = file_calls L rs ! i"
  by (metis nth_map nth_take)

text \<open>When a call of a run has returned and the run went no further, the run returned.\<close>

lemma not_last_if_returned:
  assumes "case r of
          Inr v \<Rightarrow> length t = 31 \<and> list_all (\<lambda>x. \<not> isl (snd x)) t \<and> v = a
        | Inl e \<Rightarrow> t \<noteq> [] \<and> snd (last t) = Inl e \<and>
                   list_all (\<lambda>x. \<not> isl (snd x)) (butlast t)"
      and "i < length t" and "snd (t ! i) = Inr v" and "i < 30"
  shows "Suc i < length t"
proof (cases r)
  case (Inr b)
  with assms show ?thesis by simp
next
  case (Inl e)
  with assms(1) have "t \<noteq> []" and l: "snd (last t) = Inl e" by simp_all
  then have "snd (t ! (length t - 1)) = Inl e" by (simp add: last_conv_nth)
  with assms(2,3) have "i \<noteq> length t - 1" by auto
  with assms(2) show ?thesis by arith
qed

lemma returned_of_run:
  assumes "case r of
          Inr v \<Rightarrow> length t = 31 \<and> list_all (\<lambda>x. \<not> isl (snd x)) t \<and> v = a
        | Inl e \<Rightarrow> t \<noteq> [] \<and> snd (last t) = Inl e \<and>
                   list_all (\<lambda>x. \<not> isl (snd x)) (butlast t)"
  shows "length t - 1 \<le> returned t"
proof (cases r)
  case (Inr b)
  with assms show ?thesis by (simp add: returned_all)
next
  case (Inl e)
  with assms show ?thesis by (simp add: returned_but_last)
qed

section \<open>The saving step\<close>

text \<open>
  C1. When the saving cell runs through, it writes exactly one file: the file named
  \<^verbatim>\<open>results_<job_id>.json\<close>, that is \<^verbatim>\<open>results_\<close>, then the job id read from the
  \<^verbatim>\<open>job_id\<close> attribute of the result (itself when it is a string, as a job id is, and its
  text otherwise), then \<^verbatim>\<open>.json\<close>; and its content is the text \<^verbatim>\<open>json.dump\<close> writes for
  the very value \<^verbatim>\<open>result.get_counts()\<close> returned. The cell opens that one file, hands that
  value to \<^verbatim>\<open>json.dump\<close> as it is, and leaves every other file alone.
\<close>

theorem save_writes_results_file:
  assumes "respond L env (Import ''json'') (ext w) = (Inr v0, s0)"
      and "respond L env (Attr result ''job_id'') s0 = (Inr jid, s1)"
      and "name = ''results_'' @ (case jid of PyStr j \<Rightarrow> j | _ \<Rightarrow> render L jid) @ ''.json''"
      and "respond L env (Open name ''w'') s1 = (Inr f, s2)"
      and "respond L env (Method result ''get_counts'' []) s2 = (Inr c, s3)"
      and "json_dump L c = (text, None)"
  shows "cell_save L env result w =
           (Inr (), w\<lparr>ext := s3,
                       files := (files w)(name \<mapsto> text),
                       trace := trace w @
                         [(Import ''json'', Inr v0),
                          (Attr result ''job_id'', Inr jid),
                          (Open name ''w'', Inr f),
                          (Method result ''get_counts'' [], Inr c),
                          (JsonDump c, Inr PyNone)]\<rparr>)"
  using assms
  by (simp add: cell_save_def nb_bind_def invoke_def open_w_def json_dump_to_def
        results_name_def format_field_def)

theorem save_writes_results_file_witness:
  "cell_save recorded_libs Map.empty (PyObj (Result ''f151861654594c8fb718541dede4476d'')) fresh =
     (Inr (), fresh\<lparr>ext := ext fresh,
        files := (files fresh)(''results_f151861654594c8fb718541dede4476d.json'' \<mapsto>
                    json_counts recorded_counts),
        trace := trace fresh @
          [(Import ''json'', Inr PyNone),
           (Attr (PyObj (Result ''f151861654594c8fb718541dede4476d'')) ''job_id'',
            Inr (PyStr ''f151861654594c8fb718541dede4476d'')),
           (Open ''results_f151861654594c8fb718541dede4476d.json'' ''w'',
            Inr (PyObj (FileObj ''results_f151861654594c8fb718541dede4476d.json''))),
           (Method (PyObj (Result ''f151861654594c8fb718541dede4476d'')) ''get_counts'' [],
            Inr (PyDict recorded_counts)),
           (JsonDump (PyDict recorded_counts), Inr PyNone)]\<rparr>)"
proof -
  let ?id = "''f151861654594c8fb718541dede4476d''"
  let ?name = "''results_f151861654594c8fb718541dede4476d.json''"
  have 1: "respond recorded_libs Map.empty (Import ''json'') (ext fresh) = (Inr PyNone, ext fresh)"
    by (simp add: recorded_libs_def recorded_respond_def)
  have 2: "respond recorded_libs Map.empty (Attr (PyObj (Result ?id)) ''job_id'') (ext fresh) =
             (Inr (PyStr ?id), ext fresh)"
    by (simp add: recorded_libs_def recorded_respond_def recorded_attr_def)
  have 3: "?name = ''results_'' @
             (case PyStr ?id of PyStr j \<Rightarrow> j | _ \<Rightarrow> render recorded_libs (PyStr ?id)) @ ''.json''"
    by simp
  have 4: "respond recorded_libs Map.empty (Open ?name ''w'') (ext fresh) =
             (Inr (PyObj (FileObj ?name)), ext fresh)"
    by (simp add: recorded_libs_def recorded_respond_def)
  have 5: "respond recorded_libs Map.empty (Method (PyObj (Result ?id)) ''get_counts'' [])
             (ext fresh) = (Inr (PyDict recorded_counts), ext fresh)"
    by (simp add: recorded_libs_def recorded_respond_def recorded_method_def)
  have 6: "json_dump recorded_libs (PyDict recorded_counts) = (json_counts recorded_counts, None)"
    by (simp add: recorded_libs_def recorded_json_dump_def)
  show ?thesis by (rule save_writes_results_file [OF 1 2 3 4 5 6])
qed

text \<open>
  C10. The saving cell opens the results file in mode \<^verbatim>\<open>'w'\<close>: when the cell runs
  through and a file of that name exists already, whatever it held is gone and the file
  holds the new text alone; nothing is appended, and the other files are as they were.
\<close>

theorem save_replaces_existing_file:
  assumes "respond L env (Import ''json'') (ext w) = (Inr v0, s0)"
      and "respond L env (Attr result ''job_id'') s0 = (Inr jid, s1)"
      and "respond L env (Open (results_name L jid) ''w'') s1 = (Inr f, s2)"
      and "respond L env (Method result ''get_counts'' []) s2 = (Inr c, s3)"
      and "json_dump L c = (text, None)"
      and "files w (results_name L jid) = Some old"
  shows "fst (cell_save L env result w) = Inr () \<and>
         files (snd (cell_save L env result w)) (results_name L jid) = Some text \<and>
         (\<forall>n. n \<noteq> results_name L jid \<longrightarrow> files (snd (cell_save L env result w)) n = files w n) \<and>
         (Open (results_name L jid) ''w'', Inr f) \<in> set (trace (snd (cell_save L env result w)))"
  using assms
  by (simp add: cell_save_def nb_bind_def invoke_def open_w_def json_dump_to_def)

theorem save_replaces_existing_file_witness:
  "files (fresh\<lparr>files := [''results_f151861654594c8fb718541dede4476d.json'' \<mapsto> ''{}'']\<rparr>)
     (results_name recorded_libs (PyStr recorded_job_id)) = Some ''{}'' \<and>
   fst (cell_save recorded_libs Map.empty (PyObj (Result recorded_job_id))
     (fresh\<lparr>files := [''results_f151861654594c8fb718541dede4476d.json'' \<mapsto> ''{}'']\<rparr>)) = Inr () \<and>
   files (snd (cell_save recorded_libs Map.empty (PyObj (Result recorded_job_id))
     (fresh\<lparr>files := [''results_f151861654594c8fb718541dede4476d.json'' \<mapsto> ''{}'']\<rparr>)))
     ''results_f151861654594c8fb718541dede4476d.json'' = Some (json_counts recorded_counts)"
proof -
  let ?w = "fresh\<lparr>files := [''results_f151861654594c8fb718541dede4476d.json'' \<mapsto> ''{}'']\<rparr>"
  have n: "results_name recorded_libs (PyStr recorded_job_id) =
     ''results_f151861654594c8fb718541dede4476d.json''"
    by (simp add: results_name_def format_field_def recorded_job_id_def)
  have 1: "respond recorded_libs Map.empty (Import ''json'') (ext ?w) = (Inr PyNone, ext fresh)"
    by (simp add: recorded_libs_def recorded_respond_def)
  have 2: "respond recorded_libs Map.empty (Attr (PyObj (Result recorded_job_id)) ''job_id'')
             (ext fresh) = (Inr (PyStr recorded_job_id), ext fresh)"
    by (simp add: recorded_libs_def recorded_respond_def recorded_attr_def)
  have 3: "respond recorded_libs Map.empty
             (Open (results_name recorded_libs (PyStr recorded_job_id)) ''w'') (ext fresh) =
           (Inr (PyObj (FileObj (results_name recorded_libs (PyStr recorded_job_id)))), ext fresh)"
    by (simp add: recorded_libs_def recorded_respond_def)
  have 4: "respond recorded_libs Map.empty (Method (PyObj (Result recorded_job_id)) ''get_counts'' [])
             (ext fresh) = (Inr (PyDict recorded_counts), ext fresh)"
    by (simp add: recorded_libs_def recorded_respond_def recorded_method_def)
  have 5: "json_dump recorded_libs (PyDict recorded_counts) = (json_counts recorded_counts, None)"
    by (simp add: recorded_libs_def recorded_json_dump_def)
  have 6: "files ?w (results_name recorded_libs (PyStr recorded_job_id)) = Some ''{}''"
    by (simp add: n)
  show ?thesis using save_replaces_existing_file [OF 1 2 3 4 5 6] 6 by (simp add: n)
qed

section \<open>The order of the steps\<close>

text \<open>
  C3, as the file has it. Run from the top, the notebook makes the calls of the file in
  the order of the file, each once, each on the receiver and with the arguments the file
  gives it: after the imports, credential save and load, backend discovery, backend status
  check, circuit construction, submission, the job-status query on the job submitted,
  result retrieval, result counting, plotting and the saving of the results, and then the
  last cell, which looks the backend up again, retrieves a job by the id written in the
  cell and asks for its result and its counts once more. A run that raises has made an
  initial part of these calls and stops at the call that raised: that call is its last,
  and every call before it returned.
\<close>

theorem notebook_call_order:
  "\<exists>t. trace (snd (notebook L env w)) = trace w @ t \<and>
       map fst t = take (length t) (file_calls L (answers t)) \<and>
       (case fst (notebook L env w) of
          Inr v \<Rightarrow> map fst t = file_calls L (answers t) \<and> list_all (\<lambda>x. \<not> isl (snd x)) t \<and>
                   names t = file_order \<and> steps t = spec_order @ past_job_calls
        | Inl e \<Rightarrow> t \<noteq> [] \<and> snd (last t) = Inl e \<and>
                   list_all (\<lambda>x. \<not> isl (snd x)) (butlast t) \<and>
                   names t = take (length t) file_order \<and>
                   steps t = take (length (steps t)) (spec_order @ past_job_calls))"
proof -
  from notebook_run [of L env w] obtain t
    where t: "trace (snd (notebook L env w)) = trace w @ t"
      and calls: "map fst t = take (length t) (file_calls L (answers t))"
      and form: "case fst (notebook L env w) of
          Inr v \<Rightarrow> length t = 31 \<and> list_all (\<lambda>x. \<not> isl (snd x)) t \<and> v = answer (answers t) 30
        | Inl e \<Rightarrow> t \<noteq> [] \<and> snd (last t) = Inl e \<and>
                   list_all (\<lambda>x. \<not> isl (snd x)) (butlast t)"
    by blast
  have n: "names t = take (length t) file_order" using calls by (rule names_of_run)
  show ?thesis
  proof (cases "fst (notebook L env w)")
    case (Inr v)
    with form have l: "length t = 31" and ok: "list_all (\<lambda>x. \<not> isl (snd x)) t" by simp_all
    have full: "map fst t = file_calls L (answers t)"
      using calls l by (simp add: length_file_calls)
    have "names t = file_order" using n l by (simp add: order_defs)
    then show ?thesis using t calls full ok Inr
      by (intro exI [of _ t]) (simp add: steps_def steps_file_order)
  next
    case (Inl e)
    with form have f: "t \<noteq> []" "snd (last t) = Inl e"
      "list_all (\<lambda>x. \<not> isl (snd x)) (butlast t)" by simp_all
    have "steps t = filter (\<lambda>n. n \<noteq> ''import'') (take (length t) file_order)"
      using n by (simp add: steps_def)
    also have "\<dots> = take (length (filter (\<lambda>n. n \<noteq> ''import'') (take (length t) file_order)))
                       (filter (\<lambda>n. n \<noteq> ''import'') file_order)"
      by (rule filter_take_prefix)
    finally have "steps t = take (length (steps t)) (spec_order @ past_job_calls)"
      using n by (simp add: steps_def steps_file_order)
    then show ?thesis using t calls n f Inl by (intro exI [of _ t]) simp
  qed
qed

theorem notebook_call_order_witness:
  "fst (notebook obliging_libs Map.empty fresh) = Inr (PyDict recorded_counts) \<and>
   map fst (trace (snd (notebook obliging_libs Map.empty fresh))) =
     file_calls obliging_libs (answers (trace (snd (notebook obliging_libs Map.empty fresh)))) \<and>
   names (trace (snd (notebook obliging_libs Map.empty fresh))) = file_order \<and>
   steps (trace (snd (notebook obliging_libs Map.empty fresh))) = spec_order @ past_job_calls"
proof -
  let ?run = "notebook obliging_libs Map.empty fresh"
  from notebook_call_order [of obliging_libs Map.empty fresh] obtain t
    where t: "trace (snd ?run) = trace fresh @ t"
      and c: "case fst ?run of
          Inr v \<Rightarrow> map fst t = file_calls obliging_libs (answers t) \<and>
                   list_all (\<lambda>x. \<not> isl (snd x)) t \<and>
                   names t = file_order \<and> steps t = spec_order @ past_job_calls
        | Inl e \<Rightarrow> t \<noteq> [] \<and> snd (last t) = Inl e \<and>
                   list_all (\<lambda>x. \<not> isl (snd x)) (butlast t) \<and>
                   names t = take (length t) file_order \<and>
                   steps t = take (length (steps t)) (spec_order @ past_job_calls)"
    by blast
  have "trace (snd ?run) = t" using t by (simp add: fresh_def)
  with c obliging_run_result show ?thesis by simp
qed

text \<open>
  C3, as the specification has it, fails: in the recorded run the steps do not end with
  the saving of the results. The last cell follows, and the run ends in its call of
  \<^verbatim>\<open>retrieve_job\<close>.
\<close>

theorem spec_order_counterexample:
  "steps (trace (snd (notebook recorded_libs Map.empty fresh))) \<noteq> spec_order \<and>
   steps (trace (snd (notebook recorded_libs Map.empty fresh))) =
     spec_order @ [''Quantinuum.get_backend'', ''retrieve_job'']"
  using recorded_run_names by (simp add: steps_def order_defs)

section \<open>Exceptions\<close>



section \<open>The job-status query and the result\<close>

text \<open>
  C5, as the code has it. The sixteenth call of a run is \<^verbatim>\<open>execute(circuit, backend,
  shots=100)\<close>. When it has returned a job, the next call is \<^verbatim>\<open>status()\<close> on that job; when
  that has returned, whatever it returned, its value is displayed (unless it is
  \<^verbatim>\<open>None\<close>) and the next call is \<^verbatim>\<open>result()\<close> on the same job; and no call after that
  asks for a status again. So the notebook asks for the status once and does not wait for
  a status of completion before it asks for the result.
\<close>

theorem result_follows_status_query:
  assumes "trace (snd (notebook L env w)) = trace w @ t"
      and "15 < length t" and "snd (t ! 15) = Inr job"
  shows "fst (t ! 15) =
           Call ''execute'' [answer (answers t) 10, answer (answers t) 7] [(''shots'', PyInt 100)] \<and>
         16 < length t \<and> fst (t ! 16) = Method job ''status'' [] \<and>
         (\<forall>v. snd (t ! 16) = Inr v \<longrightarrow>
            17 < length t \<and> fst (t ! 17) = Method job ''result'' [] \<and>
            (v \<noteq> PyNone \<longrightarrow> [v] \<in> set (drop (length (shown w)) (shown (snd (notebook L env w)))))) \<and>
         ''status'' \<notin> set (names (drop 17 t))"
proof -
  from notebook_run [of L env w] obtain u
    where u: "trace (snd (notebook L env w)) = trace w @ u"
      and sh: "shown (snd (notebook L env w)) = shown w @ file_shows (answers u) (returned u)"
      and calls: "map fst u = take (length u) (file_calls L (answers u))"
      and form: "case fst (notebook L env w) of
          Inr v \<Rightarrow> length u = 31 \<and> list_all (\<lambda>x. \<not> isl (snd x)) u \<and> v = answer (answers u) 30
        | Inl e \<Rightarrow> u \<noteq> [] \<and> snd (last u) = Inl e \<and>
                   list_all (\<lambda>x. \<not> isl (snd x)) (butlast u)"
    by blast
  have tu: "u = t" using u assms(1) by simp
  note calls = calls [unfolded tu] and form = form [unfolded tu] and sh = sh [unfolded tu]
  let ?rs = "answers t"
  have job: "answer ?rs 15 = job" using assms(2,3) by (rule answers_nth)
  have c15: "fst (t ! 15) = file_calls L ?rs ! 15" using calls assms(2) by (rule call_of_run)
  have l16: "16 < length t"
    using not_last_if_returned [OF form assms(2,3)] by simp
  have c16: "fst (t ! 16) = file_calls L ?rs ! 16" using calls l16 by (rule call_of_run)
  have after: "17 < length t \<and> fst (t ! 17) = Method job ''result'' [] \<and>
      (v \<noteq> PyNone \<longrightarrow> [v] \<in> set (drop (length (shown w)) (shown (snd (notebook L env w)))))"
    if v: "snd (t ! 16) = Inr v" for v
  proof -
    have l17: "17 < length t" using not_last_if_returned [OF form l16 v] by simp
    have c17: "fst (t ! 17) = file_calls L ?rs ! 17" using calls l17 by (rule call_of_run)
    have a16: "answer ?rs 16 = v" using l16 v by (rule answers_nth)
    have "16 < returned t" using returned_of_run [OF form] l17 by simp
    then have "v \<noteq> PyNone \<Longrightarrow> [v] \<in> set (file_shows ?rs (returned t))"
      using a16 by (simp add: file_shows_def cell_value_def)
    then show ?thesis using l17 c17 job sh by (simp add: file_calls_def)
  qed
  have "names (drop 17 t) = drop 17 (names t)" by (simp add: names_def drop_map)
  also have "\<dots> = take (length t - 17) (drop 17 file_order)"
    using names_of_run [OF calls] by (simp add: drop_take)
  finally have "set (names (drop 17 t)) \<subseteq> set (drop 17 file_order)"
    by (simp add: set_take_subset)
  moreover have "''status'' \<notin> set (drop 17 file_order)" by (simp add: order_defs)
  ultimately have once: "''status'' \<notin> set (names (drop 17 t))" by blast
  show ?thesis using c15 c16 l16 job after once by (simp add: file_calls_def)
qed

lemma queued_run_calls:
  "length (trace (snd (notebook queued_libs Map.empty fresh))) = 29 \<and>
   snd (trace (snd (notebook queued_libs Map.empty fresh)) ! 15) =
     Inr (PyObj (Job ''f151861654594c8fb718541dede4476d'')) \<and>
   snd (trace (snd (notebook queued_libs Map.empty fresh)) ! 16) =
     Inr (PyObj (JobStatus ''QUEUED''))"
  by (simp add: notebook_def cell_defs statement_defs queued_libs_def recorded_defs Let_def upt_2)

theorem result_follows_status_query_witness:
  "snd (trace (snd (notebook queued_libs Map.empty fresh)) ! 15) =
     Inr (PyObj (Job ''f151861654594c8fb718541dede4476d'')) \<and>
   trace (snd (notebook queued_libs Map.empty fresh)) ! 16 =
     (Method (PyObj (Job ''f151861654594c8fb718541dede4476d'')) ''status'' [],
      Inr (PyObj (JobStatus ''QUEUED''))) \<and>
   fst (trace (snd (notebook queued_libs Map.empty fresh)) ! 17) =
     Method (PyObj (Job ''f151861654594c8fb718541dede4476d'')) ''result'' [] \<and>
   [PyObj (JobStatus ''QUEUED'')] \<in> set (shown (snd (notebook queued_libs Map.empty fresh)))"
proof -
  let ?t = "trace (snd (notebook queued_libs Map.empty fresh))"
  have 1: "?t = trace fresh @ ?t" by (simp add: fresh_def)
  have 2: "15 < length ?t" using queued_run_calls by simp
  have 3: "snd (?t ! 15) = Inr (PyObj (Job ''f151861654594c8fb718541dede4476d''))"
    using queued_run_calls by simp
  have 4: "snd (?t ! 16) = Inr (PyObj (JobStatus ''QUEUED''))" using queued_run_calls by simp
  have 5: "shown fresh = []" by (simp add: fresh_def)
  show ?thesis
    using result_follows_status_query [OF 1 2 3] 3 4 5 by (simp add: prod_eq_iff)
qed

text \<open>
  C5, as the specification has it, fails: with libraries that report the job as queued,
  the notebook asks for the result all the same, and no report of a finished job comes
  before.
\<close>

theorem result_before_done_counterexample:
  "\<not> result_only_after_done False (trace (snd (notebook queued_libs Map.empty fresh)))"
  by (simp add: notebook_def cell_defs statement_defs queued_libs_def recorded_defs Let_def upt_2)

section \<open>What the notebook writes\<close>

text \<open>
  C6, as the code has it. The results file is the only file the notebook's own statements
  write. Every code cell but the saving cell is made of library calls and displays and
  leaves the files it found; the saving cell changes at most the one file
  \<^verbatim>\<open>results_<job_id>.json\<close>; and after a run of the whole notebook the files are as they
  were until \<^verbatim>\<open>open\<close> has returned, then with that one file empty, then with that file
  holding what \<^verbatim>\<open>json.dump\<close> wrote. What a library keeps on its own, as \<^verbatim>\<open>save_account\<close>
  keeps the account, is in the libraries' state, and nothing is said about it.
\<close>

theorem only_results_file_written:
  "keeps_files (cell_imports L env) \<and> keeps_files (cell_account L env) \<and>
   keeps_files (cell_backends L env) \<and> keeps_files (cell_device L env) \<and>
   keeps_files (cell_circuit L env) \<and> keeps_files (cell_submit L env circuit backend) \<and>
   keeps_files (cell_job_status L env job) \<and> keeps_files (cell_result L env job) \<and>
   keeps_files (cell_counts L env result) \<and> keeps_files (cell_plot L env counts) \<and>
   keeps_files (cell_past_job L env) \<and>
   writes_results_only L (cell_save L env result) \<and>
   (\<exists>t. trace (snd (notebook L env w)) = trace w @ t \<and>
        map fst t = take (length t) (file_calls L (answers t)) \<and>
        files (snd (notebook L env w)) =
          (if 26 < length t then
             (files w)(''results_'' @ job_id_text L (answer (answers t) 23) @ ''.json'' \<mapsto>
                fst (json_dump L (answer (answers t) 25)))
           else if 24 < returned t then
             (files w)(''results_'' @ job_id_text L (answer (answers t) 23) @ ''.json'' \<mapsto> [])
           else files w))"
proof -
  from notebook_run [of L env w] obtain t
    where "trace (snd (notebook L env w)) = trace w @ t"
      and "files (snd (notebook L env w)) =
             file_writes L (answers t) (length t) (returned t) (files w)"
      and "map fst t = take (length t) (file_calls L (answers t))"
    by blast
  then have "\<exists>t. trace (snd (notebook L env w)) = trace w @ t \<and>
        map fst t = take (length t) (file_calls L (answers t)) \<and>
        files (snd (notebook L env w)) =
          (if 26 < length t then
             (files w)(''results_'' @ job_id_text L (answer (answers t) 23) @ ''.json'' \<mapsto>
                fst (json_dump L (answer (answers t) 25)))
           else if 24 < returned t then
             (files w)(''results_'' @ job_id_text L (answer (answers t) 23) @ ''.json'' \<mapsto> [])
           else files w)"
    by (intro exI [of _ t]) (simp add: file_writes_def)
  then show ?thesis
    by (intro conjI keeps_files_cells writes_results_only_cell_save)
qed

theorem only_results_file_written_witness:
  "files (snd (notebook recorded_libs Map.empty fresh)) =
     [''results_f151861654594c8fb718541dede4476d.json'' \<mapsto> json_counts recorded_counts] \<and>
   keeps_files (cell_account recorded_libs Map.empty) \<and>
   writes_results_only recorded_libs
     (cell_save recorded_libs Map.empty (PyObj (Result ''f151861654594c8fb718541dede4476d'')))"
  using only_results_file_written
          [of recorded_libs Map.empty "PyObj CircuitObj" "PyObj (Backend ''H1-2E'')"
              "PyObj (Job ''f151861654594c8fb718541dede4476d'')"
              "PyObj (Result ''f151861654594c8fb718541dede4476d'')" "PyDict recorded_counts" fresh]
        recorded_run_files
  by simp

text \<open>
  C6, as the specification has it, fails: with libraries that keep the account, the
  credential cell leaves something that outlasts it, and it is not the saving cell.
\<close>

theorem credential_cell_counterexample:
  "persistent (snd (cell_account storing_libs Map.empty nothing_stored)) \<noteq>
     persistent nothing_stored \<and>
   snd (persistent (snd (cell_account storing_libs Map.empty nothing_stored))) =
     Some ''first.last@company.com''"
  by (simp add: persistent_def cell_account_def statement_defs storing_libs_def
        storing_respond_def nothing_stored_def)

section \<open>The environment\<close>

text \<open>
  C7. The notebook's own code does not read \<^verbatim>\<open>QUANTINUUM_API_KEY\<close>, nor any other
  environment variable. The calls it makes are the calls of the file, whose receivers and
  arguments are literals of the notebook and values earlier calls returned, and nothing
  taken from the environment; none of them is a read of the environment; and the
  environment reaches the libraries and nothing else: run under one value of the variable,
  with libraries that answer as they would under another, the notebook does just what it
  does under the other value.
\<close>

theorem notebook_ignores_api_key:
  "(\<exists>t. trace (snd (notebook L (env(api_key_var := k1)) w)) = trace w @ t \<and>
        map fst t = take (length t) (file_calls L (answers t)) \<and>
        list_all (\<lambda>c. \<not> reads_environ c) (map fst t)) \<and>
   notebook (L\<lparr>respond := \<lambda>_. respond L (env(api_key_var := k1))\<rparr>) (env(api_key_var := k2)) w =
   notebook L (env(api_key_var := k1)) w"
proof -
  let ?L = "L\<lparr>respond := \<lambda>_. respond L (env(api_key_var := k1))\<rparr>"
  let ?e1 = "env(api_key_var := k1)" and ?e2 = "env(api_key_var := k2)"
  from notebook_run [of L ?e1 w] obtain t
    where t: "trace (snd (notebook L ?e1 w)) = trace w @ t"
      and calls: "map fst t = take (length t) (file_calls L (answers t))"
    by blast
  have "list_all (\<lambda>c. \<not> reads_environ c) (file_calls L (answers t))"
    by (simp add: file_calls_def reads_environ_def)
  then have "list_all (\<lambda>c. \<not> reads_environ c) (take (length t) (file_calls L (answers t)))"
    unfolding list_all_iff using set_take_subset by fastforce
  then have own: "\<exists>t. trace (snd (notebook L ?e1 w)) = trace w @ t \<and>
        map fst t = take (length t) (file_calls L (answers t)) \<and>
        list_all (\<lambda>c. \<not> reads_environ c) (map fst t)"
    using t calls by (intro exI [of _ t]) simp
  have i: "invoke ?L ?e2 = invoke L ?e1"
    by (intro ext) (simp add: invoke_def)
  have n: "results_name ?L = results_name L"
    by (intro ext) (simp add: results_name_def format_field_def split: val.splits)
  have j: "json_dump_to ?L = json_dump_to L"
    by (intro ext) (simp add: json_dump_to_def)
  have "open_w ?L ?e2 = open_w L ?e1"
    by (intro ext) (simp add: open_w_def i)
  then have "notebook ?L ?e2 = notebook L ?e1"
    by (simp add: notebook_def cell_defs i n j)
  with own show ?thesis by simp
qed

theorem notebook_ignores_api_key_witness:
  "list_all (\<lambda>c. \<not> reads_environ c)
     (map fst (trace (snd (notebook recorded_libs [api_key_var \<mapsto> ''k1''] fresh)))) \<and>
   notebook (recorded_libs\<lparr>respond := \<lambda>_. respond recorded_libs [api_key_var \<mapsto> ''k1'']\<rparr>)
     [api_key_var \<mapsto> ''k2''] fresh =
   notebook recorded_libs [api_key_var \<mapsto> ''k1''] fresh"
  using notebook_ignores_api_key [of recorded_libs Map.empty "Some ''k1''" fresh "Some ''k2''"]
  by (auto simp: fresh_def)

section \<open>The keys of the counts\<close>

text \<open>
  C2. In the run the notebook records, the dictionary handed to \<^verbatim>\<open>json.dump\<close> has the keys
  \<^verbatim>\<open>11\<close>, \<^verbatim>\<open>0\<close> and \<^verbatim>\<open>1\<close>: two of the three are not bitstrings of length 2, and
  they reach the file as they are.
\<close>

theorem recorded_counts_keys:
  "dumped_keys (trace (snd (notebook recorded_libs Map.empty fresh))) = [''11'', ''0'', ''1''] \<and>
   \<not> list_all (\<lambda>k. length k = 2)
       (dumped_keys (trace (snd (notebook recorded_libs Map.empty fresh)))) \<and>
   files (snd (notebook recorded_libs Map.empty fresh))
     ''results_f151861654594c8fb718541dede4476d.json'' =
     Some (''{'' @ [CHR 0x22] @ ''11'' @ [CHR 0x22] @ '': 52, '' @ [CHR 0x22] @ ''0'' @ [CHR 0x22] @
           '': 47, '' @ [CHR 0x22] @ ''1'' @ [CHR 0x22] @ '': 1}'')"
  using recorded_run_dumped recorded_run_files json_recorded_counts by simp

section \<open>The circuit\<close>

text \<open>
  C9, as the code has it. The circuit cell calls \<^verbatim>\<open>QuantumCircuit(2, 2, name='Bell Test')\<close>,
  then \<^verbatim>\<open>h(0)\<close>, \<^verbatim>\<open>cx(0, 1)\<close> and \<^verbatim>\<open>measure_all()\<close> on the circuit, then \<^verbatim>\<open>draw()\<close>, and
  nothing else. The circuit it builds, which is the circuit handed to \<^verbatim>\<open>execute\<close>, has 2
  qubits and 4 classical bits, in the registers \<^verbatim>\<open>c\<close> and \<^verbatim>\<open>meas\<close> of 2 bits each; its
  instructions are a Hadamard gate on qubit 0, a controlled X from qubit 0 to qubit 1, a
  barrier over both qubits, and the measurement of qubit 0 into \<^verbatim>\<open>meas[0]\<close> and of qubit
  1 into \<^verbatim>\<open>meas[1]\<close>. Wires and columns are those of the recorded drawing.
\<close>

theorem bell_circuit_as_built:
  "map fst (trace (snd (cell_circuit recorded_libs Map.empty fresh))) =
     [Call ''QuantumCircuit'' [PyInt 2, PyInt 2] [(''name'', PyStr ''Bell Test'')],
      Method (PyObj CircuitObj) ''h'' [PyInt 0],
      Method (PyObj CircuitObj) ''cx'' [PyInt 0, PyInt 1],
      Method (PyObj CircuitObj) ''measure_all'' [],
      Method (PyObj CircuitObj) ''draw'' []] \<and>
   built (ext (snd (cell_circuit recorded_libs Map.empty fresh))) =
     Some \<lparr>circ_name = ''Bell Test'', num_qubits = 2,
           cregs = [(''c'', 2), (''meas'', 2)], instrs = recorded_columns\<rparr> \<and>
   submitted (ext (snd (notebook recorded_libs Map.empty fresh))) =
     built (ext (snd (cell_circuit recorded_libs Map.empty fresh))) \<and>
   map_option num_clbits (submitted (ext (snd (notebook recorded_libs Map.empty fresh)))) = Some 4 \<and>
   map_option wires (submitted (ext (snd (notebook recorded_libs Map.empty fresh)))) =
     Some recorded_wires"
proof -
  have "cell_circuit recorded_libs Map.empty fresh =
          (Inr (PyObj CircuitObj),
           \<lparr>ext = \<lparr>built = Some \<lparr>circ_name = ''Bell Test'', num_qubits = 2,
                      cregs = [(''c'', 2), (''meas'', 2)], instrs = recorded_columns\<rparr>,
                   submitted = None\<rparr>,
            files = Map.empty,
            shown = [[PyObj (Drawing recorded_wires recorded_columns)]],
            trace =
              [(Call ''QuantumCircuit'' [PyInt 2, PyInt 2] [(''name'', PyStr ''Bell Test'')],
                Inr (PyObj CircuitObj)),
               (Method (PyObj CircuitObj) ''h'' [PyInt 0], Inr PyNone),
               (Method (PyObj CircuitObj) ''cx'' [PyInt 0, PyInt 1], Inr PyNone),
               (Method (PyObj CircuitObj) ''measure_all'' [], Inr PyNone),
               (Method (PyObj CircuitObj) ''draw'' [],
                Inr (PyObj (Drawing recorded_wires recorded_columns)))]\<rparr>)"
    by (simp add: cell_defs statement_defs recorded_defs Let_def upt_2 recorded_columns_def
          recorded_wires_def)
  then show ?thesis using recorded_run_ext
    by (simp add: num_clbits_def wires_def upt_2 recorded_wires_def)
qed

text \<open>
  C9, as the specification has it, fails: the circuit handed to \<^verbatim>\<open>execute\<close> is not a
  circuit of 2 classical bits that holds nothing but the two gates and the measurements.
\<close>

theorem bell_circuit_counterexample:
  "map_option claimed_bell (submitted (ext (snd (notebook recorded_libs Map.empty fresh)))) =
     Some False"
  using recorded_run_ext by (simp add: claimed_bell_def num_clbits_def)

end
